theory Spec2Isabelle
  imports Main
begin

section \<open>Data model\<close>

text \<open>
  The program is a single script, \<^verbatim>\<open>app.py\<close>: a helper \<^verbatim>\<open>send_email\<close> and three
  handlers of a user interface (create or update the assistant, add an email, chat input)
  that work on a session state and on a remote assistant service. The remote service, the
  JSON parser and the user interface are not part of the script. The remote service is a
  parameter of the model (a record of operations over a state of its own), the JSON parser
  is a parameter as well, and everything the script shows to the user is kept as a list of
  events. The context text, whose characters the script inspects and encodes, is a list
  of Unicode code points. Every other string is only stored, compared with a constant or
  passed on: these are lists of 8-bit characters, read as code points below 256.
\<close>

text \<open>A Python \<^verbatim>\<open>str\<close> as the list of its code points, and \<^verbatim>\<open>bytes\<close> as a list of bytes.\<close>

type_synonym ustring = "nat list"

type_synonym bytes = "nat list"

text \<open>Exceptions that the script can raise and never catches.\<close>

datatype error =
    APIError string
  | JSONDecodeError
  | KeyError string
  | TypeError
  | IndexError
  | AttributeError
  | UnicodeEncodeError

text \<open>
  The values \<^verbatim>\<open>json.loads\<close> can return. A float keeps its lexeme; a dict is the list
  of its items.
\<close>

datatype pyval =
    PyNone
  | PyBool bool
  | PyInt int
  | PyFloat string
  | PyStr string
  | PyList "pyval list"
  | PyDict "(string \<times> pyval) list"

text \<open>\<^verbatim>\<open>args[key]\<close> with a string key: only a dict can be subscripted by a string.\<close>

fun subscript :: "pyval \<Rightarrow> string \<Rightarrow> error + pyval" where
  "subscript (PyDict items) k =
     (case map_of items k of None \<Rightarrow> Inl (KeyError k) | Some v \<Rightarrow> Inr v)"
| "subscript v k = Inl TypeError"

text \<open>One tool call of a run: \<^verbatim>\<open>tool_call.id\<close>, \<^verbatim>\<open>.function.name\<close>, \<^verbatim>\<open>.function.arguments\<close>.\<close>

record tool_call =
  call_id :: string
  fn_name :: string
  fn_arguments :: string

text \<open>
  A run object: \<^verbatim>\<open>run.id\<close>, \<^verbatim>\<open>run.status\<close>, and the tool calls of
  \<^verbatim>\<open>run.required_action.submit_tool_outputs\<close> (\<open>None\<close> when \<^verbatim>\<open>required_action\<close>
  is \<^verbatim>\<open>None\<close>).
\<close>

record run =
  run_id :: string
  status :: string
  required_action :: "tool_call list option"

text \<open>The dict \<^verbatim>\<open>{"tool_call_id": ..., "output": ...}\<close>.\<close>

record tool_output =
  tool_call_id :: string
  output_text :: string

text \<open>A message of the remote thread: its role and its content parts.\<close>

datatype content_part = TextContent string | ImageFileContent string

record thread_message =
  tm_role :: string
  tm_content :: "content_part list"

text \<open>An entry \<^verbatim>\<open>{"role": ..., "content": ...}\<close> of \<^verbatim>\<open>st.session_state.messages\<close>.\<close>

record chat_message =
  role :: string
  content :: string

text \<open>\<^verbatim>\<open>st.session_state\<close>, as initialised in lines 36 to 43.\<close>

record session_state =
  assistant_id :: "string option"
  thread_id :: "string option"
  messages :: "chat_message list"
  email_list :: "string list"

definition init_session :: session_state where
  "init_session =
     \<lparr>assistant_id = None, thread_id = None, messages = [], email_list = []\<rparr>"

text \<open>What the script shows to the user (icons are left out).\<close>

datatype ui_event =
    Warning string
  | Error string
  | Info string
  | Success string
  | Spinner string
  | ChatMessage string string

text \<open>The five lines that \<^verbatim>\<open>send_email\<close> prints, as one entry of the console.\<close>

record mock_email =
  mail_to :: pyval
  mail_subject :: pyval
  mail_body :: pyval

text \<open>The calls of the remote service that the script makes, with their arguments.\<close>

datatype call =
    FilesCreate bytes
  | AssistantsCreate string string string "string list"
  | ThreadsCreate
  | MessagesCreate string string string
  | RunsCreate string string
  | RunsRetrieve string string
  | SubmitToolOutputs string string "tool_output list"
  | MessagesList string

text \<open>
  The remote service \<^verbatim>\<open>client\<close>: every operation takes the state of the service and
  returns an error or a result, and the next state.
\<close>

record 'r client =
  files_create :: "bytes \<Rightarrow> 'r \<Rightarrow> (error + string) \<times> 'r"
  assistants_create ::
    "string \<Rightarrow> string \<Rightarrow> string \<Rightarrow> string list \<Rightarrow> 'r \<Rightarrow> (error + string) \<times> 'r"
  threads_create :: "'r \<Rightarrow> (error + string) \<times> 'r"
  messages_create :: "string \<Rightarrow> string \<Rightarrow> string \<Rightarrow> 'r \<Rightarrow> (error + unit) \<times> 'r"
  runs_create :: "string \<Rightarrow> string \<Rightarrow> 'r \<Rightarrow> (error + run) \<times> 'r"
  runs_retrieve :: "string \<Rightarrow> string \<Rightarrow> 'r \<Rightarrow> (error + run) \<times> 'r"
  runs_submit_tool_outputs ::
    "string \<Rightarrow> string \<Rightarrow> tool_output list \<Rightarrow> 'r \<Rightarrow> (error + unit) \<times> 'r"
  messages_list :: "string \<Rightarrow> 'r \<Rightarrow> (error + thread_message list) \<times> 'r"

text \<open>
  Everything a handler reads and writes: the session state, the state of the remote
  service, the log of remote calls, the user interface, the console, and the number of
  one-second sleeps.
\<close>

record 'r world =
  session :: session_state
  remote :: 'r
  calls :: "call list"
  ui :: "ui_event list"
  console :: "mock_email list"
  slept :: nat

text \<open>How a handler ends: normally, by an uncaught exception, or by \<^verbatim>\<open>st.stop()\<close>.\<close>

datatype outcome = Done | Raised error | Stopped

section \<open>Helpers\<close>

text \<open>\<^verbatim>\<open>send_email\<close> (lines 9 to 25): prints the mock email and returns the fixed text.\<close>

definition send_email :: "pyval \<Rightarrow> pyval \<Rightarrow> pyval \<Rightarrow> 'r world \<Rightarrow> string \<times> 'r world" where
  "send_email to subject body w =
     (''Email sent successfully!'',
      w\<lparr>console := console w @ [\<lparr>mail_to = to, mail_subject = subject, mail_body = body\<rparr>]\<rparr>)"

text \<open>
  The code points that \<^verbatim>\<open>str.strip()\<close> removes, which are those of \<^verbatim>\<open>str.isspace\<close>:
  U+0009 to U+000D, U+001C to U+0020, U+0085, U+00A0, U+1680, U+2000 to U+200A, U+2028,
  U+2029, U+202F, U+205F and U+3000.
\<close>

definition isspace :: "nat \<Rightarrow> bool" where
  "isspace cp =
     ((9 \<le> cp \<and> cp \<le> 13) \<or> (28 \<le> cp \<and> cp \<le> 32) \<or> cp = 133 \<or> cp = 160 \<or>
      cp = 5760 \<or> (8192 \<le> cp \<and> cp \<le> 8202) \<or> cp = 8232 \<or> cp = 8233 \<or>
      cp = 8239 \<or> cp = 8287 \<or> cp = 12288)"

definition strip :: "ustring \<Rightarrow> ustring" where
  "strip s = rev (dropWhile isspace (rev (dropWhile isspace s)))"

text \<open>
  \<^verbatim>\<open>str.encode('utf-8')\<close>: one to four bytes per code point; a surrogate (U+D800 to
  U+DFFF) cannot be encoded and raises. A Python \<^verbatim>\<open>str\<close> holds no code point from
  U+110000 on.
\<close>

definition utf8_code_point :: "nat \<Rightarrow> bytes option" where
  "utf8_code_point cp =
     (if cp < 128 then Some [cp]
      else if cp < 2048 then Some [192 + cp div 64, 128 + cp mod 64]
      else if 55296 \<le> cp \<and> cp \<le> 57343 then None
      else if cp < 65536 then
        Some [224 + cp div 4096, 128 + (cp div 64) mod 64, 128 + cp mod 64]
      else if cp < 1114112 then
        Some [240 + cp div 262144, 128 + (cp div 4096) mod 64, 128 + (cp div 64) mod 64,
              128 + cp mod 64]
      else None)"

fun encode_utf8 :: "ustring \<Rightarrow> error + bytes" where
  "encode_utf8 [] = Inr []"
| "encode_utf8 (cp # cps) =
     (case utf8_code_point cp of
        None \<Rightarrow> Inl UnicodeEncodeError
      | Some bs \<Rightarrow>
          (case encode_utf8 cps of Inl e \<Rightarrow> Inl e | Inr rest \<Rightarrow> Inr (bs @ rest)))"

text \<open>Truth value of a session handle: \<^verbatim>\<open>None\<close> and the empty string are false.\<close>

fun truthy :: "string option \<Rightarrow> bool" where
  "truthy None = False"
| "truthy (Some s) = (s \<noteq> [])"

text \<open>A remote call: run the operation on the state of the service and log the call.\<close>

definition remote_call ::
  "call \<Rightarrow> ('r \<Rightarrow> (error + 'a) \<times> 'r) \<Rightarrow> 'r world \<Rightarrow> (error + 'a) \<times> 'r world" where
  "remote_call lbl f w =
     (case f (remote w) of (res, r') \<Rightarrow> (res, w\<lparr>remote := r', calls := calls w @ [lbl]\<rparr>))"

section \<open>The handlers\<close>

text \<open>The name, the instructions and the model of the assistant (lines 101 to 104).\<close>

definition assistant_name :: string where
  "assistant_name = ''Context-Restricted Assistant''"

definition assistant_instructions :: string where
  \<open>assistant_instructions =
     ''You are a helpful assistant. Answer questions ONLY based on the uploaded training content file. If the user asks something you cannot answer from the context, respond with 'I'm sorry, I can only answer questions based on the provided training content.' If the user asks you to send an email, use the `send_email` function. You must have the recipient's email address to use this function.''\<close>

definition assistant_model :: string where
  "assistant_model = ''gpt-4-1106-preview''"

text \<open>
  The handler of the button "Create or Update Assistant" (lines 67 to 114), for the text
  \<open>context\<close> of the text area. The tool schema of the assistant (lines 79 to 97) is a
  constant of the script and is not written out.
\<close>

definition provision :: "'r client \<Rightarrow> ustring \<Rightarrow> 'r world \<Rightarrow> outcome \<times> 'r world" where
  "provision c context w =
     (if strip context = [] then
        (Done, w\<lparr>ui := ui w @
           [Warning ''Please provide some context before creating the assistant.'']\<rparr>)
      else
        let w0 = w\<lparr>ui := ui w @ [Spinner ''Creating assistant and uploading file...'']\<rparr>
        in case encode_utf8 context of
             Inl e \<Rightarrow> (Raised e, w0)
           | Inr content_bytes \<Rightarrow>
         (case remote_call (FilesCreate content_bytes) (files_create c content_bytes) w0 of
             (Inl e, w1) \<Rightarrow> (Raised e, w1)
           | (Inr file_id, w1) \<Rightarrow>
               (case remote_call
                       (AssistantsCreate assistant_name assistant_instructions
                          assistant_model [file_id])
                       (assistants_create c assistant_name assistant_instructions
                          assistant_model [file_id]) w1 of
                  (Inl e, w2) \<Rightarrow> (Raised e, w2)
                | (Inr aid, w2) \<Rightarrow>
                    let w3 = w2\<lparr>session := (session w2)\<lparr>assistant_id := Some aid\<rparr>\<rparr>
                    in (case remote_call ThreadsCreate (threads_create c) w3 of
                          (Inl e, w4) \<Rightarrow> (Raised e, w4)
                        | (Inr tid, w4) \<Rightarrow>
                            (Done,
                             w4\<lparr>session :=
                                  (session w4)\<lparr>thread_id := Some tid, messages := []\<rparr>,
                                ui := ui w4 @
                                  [Success (''Assistant created with ID: `'' @ aid @ ''`''),
                                   Info (''A new conversation thread has been started: `''
                                         @ tid @ ''`'')]\<rparr>)))))"

text \<open>The handler of the button "Add Email" (lines 120 to 125).\<close>

definition add_email :: "string \<Rightarrow> 'r world \<Rightarrow> 'r world" where
  "add_email email_input w =
     (if email_input \<noteq> [] then
        w\<lparr>session := (session w)\<lparr>email_list := email_list (session w) @ [email_input]\<rparr>,
          ui := ui w @ [Success (''Added `'' @ email_input @ ''` to the list.'')]\<rparr>
      else w\<lparr>ui := ui w @ [Warning ''Please enter an email address.'']\<rparr>)"

text \<open>
  The polling loop (lines 165 to 170, and again lines 191 to 193): while the status of the
  local run object is \<^verbatim>\<open>queued\<close> or \<^verbatim>\<open>in_progress\<close>, sleep one second and replace the
  run object by what the service returns for its identifier. The loop has no bound, so
  the result is \<open>None\<close> when it never ends.
\<close>

partial_function (option) wait_for_run ::
  "'r client \<Rightarrow> string \<Rightarrow> run \<Rightarrow> 'r world \<Rightarrow> ((error + run) \<times> 'r world) option" where
  "wait_for_run c tid run w =
     (if status run \<in> set [''queued'', ''in_progress''] then
        (case remote_call (RunsRetrieve tid (run_id run)) (runs_retrieve c tid (run_id run))
                (w\<lparr>slept := slept w + 1\<rparr>) of
           (Inl e, w') \<Rightarrow> Some (Inl e, w')
         | (Inr run', w') \<Rightarrow> wait_for_run c tid run' w')
      else Some (Inr run, w))"

text \<open>
  The loop over the tool calls (lines 173 to 182), with the list \<^verbatim>\<open>tool_outputs\<close> as
  accumulator. \<open>loads\<close> is \<^verbatim>\<open>json.loads\<close>.
\<close>

fun handle_tool_calls ::
  "(string \<Rightarrow> error + pyval) \<Rightarrow> tool_call list \<Rightarrow> tool_output list \<Rightarrow> 'r world
     \<Rightarrow> (error + tool_output list) \<times> 'r world" where
  "handle_tool_calls loads [] tool_outputs w = (Inr tool_outputs, w)"
| "handle_tool_calls loads (tc # tcs) tool_outputs w =
     (if fn_name tc = ''send_email'' then
        let w1 = w\<lparr>ui := ui w @ [Info ''Assistant is requesting to send an email...'']\<rparr>
        in case loads (fn_arguments tc) of
             Inl e \<Rightarrow> (Inl e, w1)
           | Inr args \<Rightarrow>
               (case subscript args ''to'' of
                  Inl e \<Rightarrow> (Inl e, w1)
                | Inr to \<Rightarrow>
                    (case subscript args ''subject'' of
                       Inl e \<Rightarrow> (Inl e, w1)
                     | Inr subject \<Rightarrow>
                         (case subscript args ''body'' of
                            Inl e \<Rightarrow> (Inl e, w1)
                          | Inr body \<Rightarrow>
                              (case send_email to subject body w1 of
                                 (out, w2) \<Rightarrow>
                                   handle_tool_calls loads tcs
                                     (tool_outputs @
                                        [\<lparr>tool_call_id = call_id tc, output_text = out\<rparr>])
                                     w2))))
      else handle_tool_calls loads tcs tool_outputs w)"

text \<open>
  Lines 172 to 193: when the first loop ends in \<^verbatim>\<open>requires_action\<close>, run the tool
  calls, submit the outputs and enter the second loop. The result of the submission is not
  assigned to \<^verbatim>\<open>run\<close>: the second loop starts from the run object of the first.
\<close>

definition handle_requires_action ::
  "'r client \<Rightarrow> (string \<Rightarrow> error + pyval) \<Rightarrow> string \<Rightarrow> run \<Rightarrow> 'r world
     \<Rightarrow> ((error + run) \<times> 'r world) option" where
  "handle_requires_action c loads tid run w =
     (if status run = ''requires_action'' then
        (case required_action run of
           None \<Rightarrow> Some (Inl AttributeError, w)
         | Some tcs \<Rightarrow>
             (case handle_tool_calls loads tcs [] w of
                (Inl e, w1) \<Rightarrow> Some (Inl e, w1)
              | (Inr tool_outputs, w1) \<Rightarrow>
                  (case remote_call (SubmitToolOutputs tid (run_id run) tool_outputs)
                          (runs_submit_tool_outputs c tid (run_id run) tool_outputs) w1 of
                     (Inl e, w2) \<Rightarrow> Some (Inl e, w2)
                   | (Inr u, w2) \<Rightarrow> wait_for_run c tid run w2)))
      else Some (Inr run, w))"

text \<open>\<^verbatim>\<open>messages.data[0].content[0].text.value\<close> (line 200).\<close>

definition first_text :: "thread_message list \<Rightarrow> error + string" where
  "first_text data =
     (case data of
        [] \<Rightarrow> Inl IndexError
      | m # ms \<Rightarrow>
          (case tm_content m of
             [] \<Rightarrow> Inl IndexError
           | TextContent v # ps \<Rightarrow> Inr v
           | ImageFileContent f # ps \<Rightarrow> Inl AttributeError))"

text \<open>Lines 197 to 204: list the messages of the thread and append the first one.\<close>

definition final_response :: "'r client \<Rightarrow> string \<Rightarrow> 'r world \<Rightarrow> outcome \<times> 'r world" where
  "final_response c tid w =
     (case remote_call (MessagesList tid) (messages_list c tid) w of
        (Inl e, w1) \<Rightarrow> (Raised e, w1)
      | (Inr data, w1) \<Rightarrow>
          (case first_text data of
             Inl e \<Rightarrow> (Raised e, w1)
           | Inr assistant_message \<Rightarrow>
               (Done,
                w1\<lparr>session := (session w1)\<lparr>messages := messages (session w1) @
                       [\<lparr>role = ''assistant'', content = assistant_message\<rparr>]\<rparr>,
                   ui := ui w1 @ [ChatMessage ''assistant'' assistant_message]\<rparr>)))"

text \<open>
  The handler of the chat input (lines 140 to 204) for a submitted \<open>prompt\<close>. The two
  handles are read from the session state once: nothing in the handler writes them.
\<close>

definition chat_input ::
  "'r client \<Rightarrow> (string \<Rightarrow> error + pyval) \<Rightarrow> string \<Rightarrow> 'r world
     \<Rightarrow> (outcome \<times> 'r world) option" where
  "chat_input c loads prompt w =
     (if prompt = [] then Some (Done, w)
      else if \<not> truthy (assistant_id (session w)) \<or> \<not> truthy (thread_id (session w)) then
        Some (Stopped,
              w\<lparr>ui := ui w @ [Error ''Please create an assistant first using the sidebar.'']\<rparr>)
      else
        let aid = the (assistant_id (session w));
            tid = the (thread_id (session w));
            w1 = w\<lparr>session := (session w)\<lparr>messages := messages (session w) @
                      [\<lparr>role = ''user'', content = prompt\<rparr>]\<rparr>,
                   ui := ui w @ [ChatMessage ''user'' prompt]\<rparr>
        in case remote_call (MessagesCreate tid ''user'' prompt)
                  (messages_create c tid ''user'' prompt) w1 of
             (Inl e, w2) \<Rightarrow> Some (Raised e, w2)
           | (Inr u, w2) \<Rightarrow>
               (case remote_call (RunsCreate tid aid) (runs_create c tid aid) w2 of
                  (Inl e, w3) \<Rightarrow> Some (Raised e, w3)
                | (Inr run, w3) \<Rightarrow>
                    (case wait_for_run c tid run
                            (w3\<lparr>ui := ui w3 @ [Spinner ''Assistant is thinking...'']\<rparr>) of
                       None \<Rightarrow> None
                     | Some (Inl e, w4) \<Rightarrow> Some (Raised e, w4)
                     | Some (Inr run1, w4) \<Rightarrow>
                         (case handle_requires_action c loads tid run1 w4 of
                            None \<Rightarrow> None
                          | Some (Inl e, w5) \<Rightarrow> Some (Raised e, w5)
                          | Some (Inr run2, w5) \<Rightarrow> Some (final_response c tid w5)))))"

section \<open>A scripted remote service\<close>

text \<open>
  A stand-in for the remote service, for the scenarios of the specification ("a scripted
  sequence of statuses", "a simulated run"): every operation answers what the script
  says, whatever its arguments, and \<^verbatim>\<open>runs.retrieve\<close> answers with the next entry of a
  list. Any sequence of answers of a deterministic service is such a script.
\<close>

record script =
  on_files_create :: "error + string"
  on_assistants_create :: "error + string"
  on_threads_create :: "error + string"
  on_messages_create :: "error + unit"
  on_runs_create :: "error + run"
  on_runs_retrieve :: "(error + run) list"
  on_submit_tool_outputs :: "error + unit"
  on_messages_list :: "error + thread_message list"

definition scripted :: "script client" where
  "scripted =
     \<lparr>files_create = (\<lambda>content s. (on_files_create s, s)),
      assistants_create = (\<lambda>name instructions model file_ids s. (on_assistants_create s, s)),
      threads_create = (\<lambda>s. (on_threads_create s, s)),
      messages_create = (\<lambda>tid role content s. (on_messages_create s, s)),
      runs_create = (\<lambda>tid aid s. (on_runs_create s, s)),
      runs_retrieve = (\<lambda>tid rid s.
         case on_runs_retrieve s of
           [] \<Rightarrow> (Inl (APIError ''script exhausted''), s)
         | r # rs \<Rightarrow> (r, s\<lparr>on_runs_retrieve := rs\<rparr>)),
      runs_submit_tool_outputs = (\<lambda>tid rid tool_outputs s. (on_submit_tool_outputs s, s)),
      messages_list = (\<lambda>tid s. (on_messages_list s, s))\<rparr>"

text \<open>The properties of tool calls and arguments that the statements below speak about.\<close>

definition is_send_email :: "tool_call \<Rightarrow> bool" where
  "is_send_email tc = (fn_name tc = ''send_email'')"

definition in_polling_set :: "run \<Rightarrow> bool" where
  "in_polling_set r = (status r = ''queued'' \<or> status r = ''in_progress'')"

fun is_submit :: "call \<Rightarrow> bool" where
  "is_submit (SubmitToolOutputs tid rid tool_outputs) = True"
| "is_submit other = False"

text \<open>The tool output and the console entry of a \<^verbatim>\<open>send_email\<close> call with good arguments.\<close>

definition output_for :: "tool_call \<Rightarrow> tool_output" where
  "output_for tc = \<lparr>tool_call_id = call_id tc, output_text = ''Email sent successfully!''\<rparr>"

definition reads_args :: "(string \<Rightarrow> error + pyval) \<Rightarrow> tool_call \<Rightarrow> error + mock_email" where
  "reads_args loads tc =
     (case loads (fn_arguments tc) of
        Inl e \<Rightarrow> Inl e
      | Inr args \<Rightarrow>
          (case subscript args ''to'' of
             Inl e \<Rightarrow> Inl e
           | Inr to \<Rightarrow>
               (case subscript args ''subject'' of
                  Inl e \<Rightarrow> Inl e
                | Inr subject \<Rightarrow>
                    (case subscript args ''body'' of
                       Inl e \<Rightarrow> Inl e
                     | Inr body \<Rightarrow>
                         Inr \<lparr>mail_to = to, mail_subject = subject, mail_body = body\<rparr>))))"

section \<open>Example data\<close>

text \<open>
  A parser that agrees with \<^verbatim>\<open>json.loads\<close> on the two payloads of the examples and
  rejects everything else.
\<close>

definition demo_args :: string where
  \<open>demo_args = ''{"to": "a@example.com", "subject": "S", "body": "B"}''\<close>

definition demo_loads :: "string \<Rightarrow> error + pyval" where
  "demo_loads s =
     (if s = demo_args then
        Inr (PyDict [(''to'', PyStr ''a@example.com''), (''subject'', PyStr ''S''),
                     (''body'', PyStr ''B'')])
      else if s = ''{}'' then Inr (PyDict [])
      else Inl JSONDecodeError)"

definition demo_run :: "string \<Rightarrow> run" where
  "demo_run st = \<lparr>run_id = ''run_1'', status = st, required_action = None\<rparr>"

definition demo_mail_call :: tool_call where
  "demo_mail_call =
     \<lparr>call_id = ''call_1'', fn_name = ''send_email'', fn_arguments = demo_args\<rparr>"

definition demo_other_call :: tool_call where
  "demo_other_call =
     \<lparr>call_id = ''call_2'', fn_name = ''get_weather'', fn_arguments = ''{}''\<rparr>"

definition demo_bad_call :: tool_call where
  "demo_bad_call =
     \<lparr>call_id = ''call_3'', fn_name = ''send_email'', fn_arguments = ''{}''\<rparr>"

definition demo_action_run :: "tool_call list \<Rightarrow> run" where
  "demo_action_run tcs =
     \<lparr>run_id = ''run_1'', status = ''requires_action'', required_action = Some tcs\<rparr>"

definition demo_reply :: thread_message where
  "demo_reply = \<lparr>tm_role = ''assistant'', tm_content = [TextContent ''Hello!'']\<rparr>"

definition demo_script :: "(error + run) list \<Rightarrow> script" where
  "demo_script rs =
     \<lparr>on_files_create = Inr ''file_1'',
      on_assistants_create = Inr ''asst_2'',
      on_threads_create = Inr ''thread_2'',
      on_messages_create = Inr (),
      on_runs_create = Inr (demo_run ''queued''),
      on_runs_retrieve = rs,
      on_submit_tool_outputs = Inr (),
      on_messages_list = Inr [demo_reply]\<rparr>"

definition demo_session :: session_state where
  "demo_session =
     \<lparr>assistant_id = Some ''asst_1'', thread_id = Some ''thread_1'',
      messages = [\<lparr>role = ''user'', content = ''Hi''\<rparr>, \<lparr>role = ''assistant'', content = ''Hello!''\<rparr>],
      email_list = [''a@example.com'']\<rparr>"

definition demo_world :: "session_state \<Rightarrow> (error + run) list \<Rightarrow> script world" where
  "demo_world s rs =
     \<lparr>session = s, remote = demo_script rs, calls = [], ui = [], console = [], slept = 0\<rparr>"

section \<open>Lemmas about the loops\<close>

lemma wait_for_run_stop:
  "\<not> in_polling_set run \<Longrightarrow> wait_for_run c tid run w = Some (Inr run, w)"
  by (subst wait_for_run.simps) (simp add: in_polling_set_def)

lemma wait_for_run_step:
  "in_polling_set run \<Longrightarrow>
   wait_for_run c tid run w =
     (case remote_call (RunsRetrieve tid (run_id run)) (runs_retrieve c tid (run_id run))
             (w\<lparr>slept := slept w + 1\<rparr>) of
        (Inl e, w') \<Rightarrow> Some (Inl e, w')
      | (Inr run', w') \<Rightarrow> wait_for_run c tid run' w')"
  by (subst wait_for_run.simps) (auto simp: in_polling_set_def)

lemma handle_tool_calls_Cons:
  "handle_tool_calls loads (tc # tcs) outs w =
     (if is_send_email tc then
        (case reads_args loads tc of
           Inl e \<Rightarrow>
             (Inl e, w\<lparr>ui := ui w @ [Info ''Assistant is requesting to send an email...'']\<rparr>)
         | Inr m \<Rightarrow>
             handle_tool_calls loads tcs (outs @ [output_for tc])
               (w\<lparr>ui := ui w @ [Info ''Assistant is requesting to send an email...''],
                  console := console w @ [m]\<rparr>))
      else handle_tool_calls loads tcs outs w)"
  by (simp add: is_send_email_def reads_args_def send_email_def output_for_def Let_def
        split: sum.splits)

declare handle_tool_calls.simps(2) [simp del]

lemma handle_tool_calls_filter:
  "handle_tool_calls loads tcs outs w =
   handle_tool_calls loads (filter is_send_email tcs) outs w"
proof (induction tcs arbitrary: outs w)
  case Nil
  then show ?case by simp
next
  case (Cons tc tcs)
  show ?case
  proof (cases "is_send_email tc")
    case False
    then show ?thesis using Cons.IH[of outs w] by (simp add: handle_tool_calls_Cons)
  next
    case True
    show ?thesis
    proof (cases "reads_args loads tc")
      case (Inl e)
      with True show ?thesis by (simp add: handle_tool_calls_Cons)
    next
      case (Inr m)
      with True show ?thesis
        using Cons.IH[of "outs @ [output_for tc]"
            "w\<lparr>ui := ui w @ [Info ''Assistant is requesting to send an email...''],
               console := console w @ [m]\<rparr>"]
        by (simp add: handle_tool_calls_Cons)
    qed
  qed
qed

lemma handle_tool_calls_frame:
  "handle_tool_calls loads tcs outs w = (res, w') \<Longrightarrow>
   session w' = session w \<and> remote w' = remote w \<and> calls w' = calls w \<and> slept w' = slept w"
proof (induction tcs arbitrary: outs w)
  case Nil
  then show ?case by simp
next
  case (Cons tc tcs)
  show ?case
  proof (cases "is_send_email tc")
    case False
    with Cons.prems have "handle_tool_calls loads tcs outs w = (res, w')"
      by (simp add: handle_tool_calls_Cons)
    then show ?thesis by (rule Cons.IH)
  next
    case True
    show ?thesis
    proof (cases "reads_args loads tc")
      case (Inl e)
      with True Cons.prems show ?thesis by (auto simp: handle_tool_calls_Cons)
    next
      case (Inr m)
      with True Cons.prems show ?thesis
        using Cons.IH[of "outs @ [output_for tc]"
            "w\<lparr>ui := ui w @ [Info ''Assistant is requesting to send an email...''],
               console := console w @ [m]\<rparr>"]
        by (simp add: handle_tool_calls_Cons)
    qed
  qed
qed

lemma handle_tool_calls_ok:
  "map (reads_args loads) (filter is_send_email tcs) = map Inr ms \<Longrightarrow>
   handle_tool_calls loads tcs outs w =
     (Inr (outs @ map output_for (filter is_send_email tcs)),
      w\<lparr>ui := ui w @ replicate (length ms) (Info ''Assistant is requesting to send an email...''),
        console := console w @ ms\<rparr>)"
proof (induction tcs arbitrary: ms outs w)
  case Nil
  then show ?case by simp
next
  case (Cons tc tcs)
  show ?case
  proof (cases "is_send_email tc")
    case False
    with Cons.prems have "map (reads_args loads) (filter is_send_email tcs) = map Inr ms"
      by simp
    from Cons.IH[OF this] False show ?thesis by (simp add: handle_tool_calls_Cons)
  next
    case True
    with Cons.prems obtain m ms' where ms: "ms = m # ms'"
      and m: "reads_args loads tc = Inr m"
      and rest: "map (reads_args loads) (filter is_send_email tcs) = map Inr ms'"
      by (cases ms) auto
    from m True show ?thesis
      by (simp add: handle_tool_calls_Cons ms Cons.IH[OF rest] replicate_append_same)
  qed
qed

lemma handle_tool_calls_raises:
  "tc \<in> set tcs \<Longrightarrow> is_send_email tc \<Longrightarrow> reads_args loads tc = Inl e0 \<Longrightarrow>
   \<exists>e w'. handle_tool_calls loads tcs outs w = (Inl e, w')"
proof (induction tcs arbitrary: outs w)
  case Nil
  then show ?case by simp
next
  case (Cons a tcs)
  show ?case
  proof (cases "a = tc")
    case True
    with Cons.prems show ?thesis by (simp add: handle_tool_calls_Cons)
  next
    case False
    with Cons.prems have mem: "tc \<in> set tcs" by simp
    note IH = Cons.IH[OF mem Cons.prems(2,3)]
    show ?thesis
      using IH by (simp add: handle_tool_calls_Cons split: sum.splits)
  qed
qed

lemma dropWhile_all: "(\<forall>x \<in> set (dropWhile P xs). P x) \<longleftrightarrow> (\<forall>x \<in> set xs. P x)"
proof
  assume a: "\<forall>x \<in> set (dropWhile P xs). P x"
  have "dropWhile P xs = []"
  proof (rule ccontr)
    assume ne: "dropWhile P xs \<noteq> []"
    then have "\<not> P (hd (dropWhile P xs))" by (rule hd_dropWhile)
    moreover from ne have "hd (dropWhile P xs) \<in> set (dropWhile P xs)" by simp
    ultimately show False using a by blast
  qed
  then show "\<forall>x \<in> set xs. P x" by simp
next
  assume "\<forall>x \<in> set xs. P x"
  then show "\<forall>x \<in> set (dropWhile P xs). P x" by (meson set_dropWhileD)
qed

lemma encode_utf8_total:
  "\<forall>cp \<in> set s. cp < 1114112 \<and> \<not> (55296 \<le> cp \<and> cp \<le> 57343) \<Longrightarrow>
   \<exists>bs. encode_utf8 s = Inr bs"
  by (induction s) (auto simp: utf8_code_point_def)

lemma strip_empty: "strip s = [] \<longleftrightarrow> (\<forall>cp \<in> set s. isspace cp)"
  by (simp add: strip_def dropWhile_all)

lemma handle_tool_calls_outputs:
  "handle_tool_calls loads tcs outs w = (Inr outs', w') \<Longrightarrow>
   outs' = outs @ map output_for (filter is_send_email tcs)"
proof (induction tcs arbitrary: outs w)
  case Nil
  then show ?case by simp
next
  case (Cons tc tcs)
  show ?case
  proof (cases "is_send_email tc")
    case False
    with Cons.prems have "handle_tool_calls loads tcs outs w = (Inr outs', w')"
      by (simp add: handle_tool_calls_Cons)
    from Cons.IH[OF this] False show ?thesis by simp
  next
    case True
    show ?thesis
    proof (cases "reads_args loads tc")
      case (Inl e)
      with True Cons.prems show ?thesis by (simp add: handle_tool_calls_Cons)
    next
      case (Inr m)
      with True Cons.prems have
        "handle_tool_calls loads tcs (outs @ [output_for tc])
           (w\<lparr>ui := ui w @ [Info ''Assistant is requesting to send an email...''],
              console := console w @ [m]\<rparr>) = (Inr outs', w')"
        by (simp add: handle_tool_calls_Cons)
      from Cons.IH[OF this] True show ?thesis by simp
    qed
  qed
qed

lemma requires_action_not_polling:
  "status run = ''requires_action'' \<Longrightarrow> \<not> in_polling_set run"
  by (simp add: in_polling_set_def)

section \<open>Lemmas about the scripted service and the handlers\<close>

lemma scripted_retrieve:
  "on_runs_retrieve (remote w) = x # xs \<Longrightarrow>
   remote_call lbl (runs_retrieve scripted tid rid) w =
     (x, w\<lparr>remote := (remote w)\<lparr>on_runs_retrieve := xs\<rparr>, calls := calls w @ [lbl]\<rparr>)"
  by (simp add: remote_call_def scripted_def)

lemma polling_scripted:
  "\<forall>r \<in> set (butlast (r0 # rs)). in_polling_set r \<Longrightarrow>
   \<not> in_polling_set (last (r0 # rs)) \<Longrightarrow>
   on_runs_retrieve (remote w) = map Inr rs @ rest \<Longrightarrow>
   wait_for_run scripted tid r0 w =
     Some (Inr (last (r0 # rs)),
           w\<lparr>remote := (remote w)\<lparr>on_runs_retrieve := rest\<rparr>,
             calls := calls w @ map (\<lambda>r. RunsRetrieve tid (run_id r)) (butlast (r0 # rs)),
             slept := slept w + length rs\<rparr>)"
proof (induction rs arbitrary: r0 w)
  case Nil
  then have "\<not> in_polling_set r0" by simp
  then have "wait_for_run scripted tid r0 w = Some (Inr r0, w)" by (rule wait_for_run_stop)
  moreover from Nil.prems(3) have "(remote w)\<lparr>on_runs_retrieve := rest\<rparr> = remote w" by simp
  ultimately show ?case by simp
next
  case (Cons r rs)
  from Cons.prems(1) have p0: "in_polling_set r0" by simp
  let ?w1 = "w\<lparr>slept := slept w + 1\<rparr>"
  let ?w2 = "?w1\<lparr>remote := (remote ?w1)\<lparr>on_runs_retrieve := map Inr rs @ rest\<rparr>,
                 calls := calls ?w1 @ [RunsRetrieve tid (run_id r0)]\<rparr>"
  from Cons.prems(3) have "on_runs_retrieve (remote ?w1) = Inr r # (map Inr rs @ rest)" by simp
  then have step: "remote_call (RunsRetrieve tid (run_id r0))
      (runs_retrieve scripted tid (run_id r0)) ?w1 = (Inr r, ?w2)"
    by (rule scripted_retrieve)
  from Cons.prems(1) have a: "\<forall>x \<in> set (butlast (r # rs)). in_polling_set x" by simp
  from Cons.prems(2) have b: "\<not> in_polling_set (last (r # rs))" by simp
  have c: "on_runs_retrieve (remote ?w2) = map Inr rs @ rest" by simp
  have "wait_for_run scripted tid r0 w = wait_for_run scripted tid r ?w2"
    unfolding wait_for_run_step[OF p0] step by simp
  also note Cons.IH[OF a b c]
  finally show ?case by simp
qed


lemma final_response_ok:
  "messages_list c tid (remote w) = (Inr data, r') \<Longrightarrow> first_text data = Inr txt \<Longrightarrow>
   final_response c tid w =
     (Done,
      w\<lparr>session := (session w)\<lparr>messages := messages (session w) @
             [\<lparr>role = ''assistant'', content = txt\<rparr>]\<rparr>,
        remote := r',
        calls := calls w @ [MessagesList tid],
        ui := ui w @ [ChatMessage ''assistant'' txt]\<rparr>)"
  by (simp add: final_response_def remote_call_def)

lemma final_response_frame:
  "final_response c tid w = (out, w') \<Longrightarrow>
   calls w' = calls w @ [MessagesList tid] \<and> console w' = console w \<and>
   (case out of
      Done \<Rightarrow> \<exists>data txt r. messages_list c tid r = (Inr data, remote w') \<and>
                 first_text data = Inr txt \<and>
                 session w' = (session w)\<lparr>messages := messages (session w) @
                   [\<lparr>role = ''assistant'', content = txt\<rparr>]\<rparr>
    | _ \<Rightarrow> session w' = session w)"
  by (fastforce simp: final_response_def remote_call_def split: prod.splits sum.splits)

lemma handle_requires_action_other:
  "status run \<noteq> ''requires_action'' \<Longrightarrow>
   handle_requires_action c loads tid run w = Some (Inr run, w)"
  by (simp add: handle_requires_action_def)

lemma handle_requires_action_ok:
  assumes "status run = ''requires_action''" "required_action run = Some tcs"
    and "map (reads_args loads) (filter is_send_email tcs) = map Inr ms"
    and "runs_submit_tool_outputs c tid (run_id run)
           (map output_for (filter is_send_email tcs)) (remote w) = (Inr u, r')"
  shows "handle_requires_action c loads tid run w =
     Some (Inr run,
           w\<lparr>remote := r',
             calls := calls w @ [SubmitToolOutputs tid (run_id run)
                        (map output_for (filter is_send_email tcs))],
             ui := ui w @
                replicate (length ms) (Info ''Assistant is requesting to send an email...''),
             console := console w @ ms\<rparr>)"
proof -
  from assms(1) have np: "\<not> in_polling_set run" by (rule requires_action_not_polling)
  show ?thesis
    using assms
    by (simp add: handle_requires_action_def handle_tool_calls_ok[OF assms(3)]
          remote_call_def wait_for_run_stop[OF np])
qed

lemma handle_requires_action_raises:
  assumes "status run = ''requires_action''" "required_action run = Some tcs"
    and "tc \<in> set tcs" "is_send_email tc" "reads_args loads tc = Inl e0"
  shows "\<exists>e w'. handle_requires_action c loads tid run w = Some (Inl e, w') \<and>
           session w' = session w \<and> remote w' = remote w \<and> calls w' = calls w"
proof -
  from handle_tool_calls_raises[OF assms(3,4,5)] obtain e w' where
    h: "handle_tool_calls loads tcs [] w = (Inl e, w')" by blast
  from handle_tool_calls_frame[OF h] h assms(1,2) show ?thesis
    by (simp add: handle_requires_action_def)
qed

lemma handle_requires_action_total:
  "\<exists>y. handle_requires_action c loads tid run w = Some y"
proof (cases "status run = ''requires_action''")
  case False
  then show ?thesis by (simp add: handle_requires_action_def)
next
  case True
  then have np: "\<not> in_polling_set run" by (rule requires_action_not_polling)
  show ?thesis
    by (simp add: handle_requires_action_def True wait_for_run_stop[OF np]
          split: option.splits prod.splits sum.splits)
qed

lemma scripted_simps:
  "messages_create scripted tid rl txt s = (on_messages_create s, s)"
  "runs_create scripted tid aid s = (on_runs_create s, s)"
  "runs_submit_tool_outputs scripted tid rid outs s = (on_submit_tool_outputs s, s)"
  "messages_list scripted tid s = (on_messages_list s, s)"
  "files_create scripted ctx s = (on_files_create s, s)"
  "assistants_create scripted n i m fs s = (on_assistants_create s, s)"
  "threads_create scripted s = (on_threads_create s, s)"
  by (simp_all add: scripted_def)

lemma chat_input_scripted:
  assumes h: "assistant_id (session w) = Some aid" "aid \<noteq> []"
      "thread_id (session w) = Some tid" "tid \<noteq> []" "prompt \<noteq> []"
    and s: "on_messages_create (remote w) = Inr ()" "on_runs_create (remote w) = Inr r0"
    and p: "\<forall>r \<in> set (butlast (r0 # rs)). in_polling_set r"
      "\<not> in_polling_set (last (r0 # rs))"
      "on_runs_retrieve (remote w) = map Inr rs @ rest"
  shows "chat_input scripted loads prompt w =
     (case handle_requires_action scripted loads tid (last (r0 # rs))
             (w\<lparr>session := (session w)\<lparr>messages := messages (session w) @
                     [\<lparr>role = ''user'', content = prompt\<rparr>]\<rparr>,
                remote := (remote w)\<lparr>on_runs_retrieve := rest\<rparr>,
                calls := calls w @ [MessagesCreate tid ''user'' prompt, RunsCreate tid aid] @
                   map (\<lambda>r. RunsRetrieve tid (run_id r)) (butlast (r0 # rs)),
                ui := ui w @ [ChatMessage ''user'' prompt, Spinner ''Assistant is thinking...''],
                slept := slept w + length rs\<rparr>) of
        None \<Rightarrow> None
      | Some (Inl e, w5) \<Rightarrow> Some (Raised e, w5)
      | Some (Inr run2, w5) \<Rightarrow> Some (final_response scripted tid w5))"
proof -
  let ?w3 = "w\<lparr>session := (session w)\<lparr>messages := messages (session w) @
                     [\<lparr>role = ''user'', content = prompt\<rparr>]\<rparr>,
                calls := calls w @ [MessagesCreate tid ''user'' prompt, RunsCreate tid aid],
                ui := ui w @ [ChatMessage ''user'' prompt, Spinner ''Assistant is thinking...'']\<rparr>"
  from p(3) have r: "on_runs_retrieve (remote ?w3) = map Inr rs @ rest" by simp
  note poll = polling_scripted[OF p(1,2) r, of tid]
  have c: "chat_input scripted loads prompt w =
     (case wait_for_run scripted tid r0 ?w3 of
        None \<Rightarrow> None
      | Some (Inl e, w4) \<Rightarrow> Some (Raised e, w4)
      | Some (Inr run1, w4) \<Rightarrow>
          (case handle_requires_action scripted loads tid run1 w4 of
             None \<Rightarrow> None
           | Some (Inl e, w5) \<Rightarrow> Some (Raised e, w5)
           | Some (Inr run2, w5) \<Rightarrow> Some (final_response scripted tid w5)))"
    using h s by (simp add: chat_input_def remote_call_def scripted_simps Let_def)
  have weq: "?w3\<lparr>remote := (remote ?w3)\<lparr>on_runs_retrieve := rest\<rparr>,
             calls := calls ?w3 @ map (\<lambda>r. RunsRetrieve tid (run_id r)) (butlast (r0 # rs)),
             slept := slept ?w3 + length rs\<rparr> =
        w\<lparr>session := (session w)\<lparr>messages := messages (session w) @
                     [\<lparr>role = ''user'', content = prompt\<rparr>]\<rparr>,
                remote := (remote w)\<lparr>on_runs_retrieve := rest\<rparr>,
                calls := calls w @ [MessagesCreate tid ''user'' prompt, RunsCreate tid aid] @
                   map (\<lambda>r. RunsRetrieve tid (run_id r)) (butlast (r0 # rs)),
                ui := ui w @ [ChatMessage ''user'' prompt, Spinner ''Assistant is thinking...''],
                slept := slept w + length rs\<rparr>"
    by (rule world.equality) simp_all
  show ?thesis unfolding c poll weq by simp
qed

lemma chat_scripted_done:
  assumes h: "assistant_id (session w) = Some aid" "aid \<noteq> []"
      "thread_id (session w) = Some tid" "tid \<noteq> []" "prompt \<noteq> []"
    and s: "on_messages_create (remote w) = Inr ()" "on_runs_create (remote w) = Inr r0"
    and p: "\<forall>r \<in> set (butlast (r0 # rs)). in_polling_set r"
      "\<not> in_polling_set (last (r0 # rs))"
      "on_runs_retrieve (remote w) = map Inr rs @ rest"
    and t: "status (last (r0 # rs)) \<noteq> ''requires_action''"
    and l: "on_messages_list (remote w) = Inr data" "first_text data = Inr txt"
  shows "\<exists>w'. chat_input scripted loads prompt w = Some (Done, w') \<and>
     messages (session w') = messages (session w) @
       [\<lparr>role = ''user'', content = prompt\<rparr>, \<lparr>role = ''assistant'', content = txt\<rparr>] \<and>
     calls w' = calls w @ [MessagesCreate tid ''user'' prompt, RunsCreate tid aid] @
       map (\<lambda>r. RunsRetrieve tid (run_id r)) (butlast (r0 # rs)) @ [MessagesList tid] \<and>
     console w' = console w \<and> slept w' = slept w + length rs"
  unfolding chat_input_scripted[OF h s p] handle_requires_action_other[OF t]
  using l by (simp add: final_response_def remote_call_def scripted_simps)

lemma chat_scripted_action:
  assumes h: "assistant_id (session w) = Some aid" "aid \<noteq> []"
      "thread_id (session w) = Some tid" "tid \<noteq> []" "prompt \<noteq> []"
    and s: "on_messages_create (remote w) = Inr ()" "on_runs_create (remote w) = Inr r0"
    and p: "\<forall>r \<in> set (butlast (r0 # rs)). in_polling_set r"
      "\<not> in_polling_set (last (r0 # rs))"
      "on_runs_retrieve (remote w) = map Inr rs @ rest"
    and t: "status (last (r0 # rs)) = ''requires_action''"
      "required_action (last (r0 # rs)) = Some tcs"
    and a: "map (reads_args loads) (filter is_send_email tcs) = map Inr ms"
    and u: "on_submit_tool_outputs (remote w) = Inr ()"
    and l: "on_messages_list (remote w) = Inr data" "first_text data = Inr txt"
  shows "\<exists>w'. chat_input scripted loads prompt w = Some (Done, w') \<and>
     messages (session w') = messages (session w) @
       [\<lparr>role = ''user'', content = prompt\<rparr>, \<lparr>role = ''assistant'', content = txt\<rparr>] \<and>
     calls w' = calls w @ [MessagesCreate tid ''user'' prompt, RunsCreate tid aid] @
       map (\<lambda>r. RunsRetrieve tid (run_id r)) (butlast (r0 # rs)) @
       [SubmitToolOutputs tid (run_id (last (r0 # rs)))
          (map output_for (filter is_send_email tcs)),
        MessagesList tid] \<and>
     console w' = console w @ ms \<and> slept w' = slept w + length rs \<and>
     on_runs_retrieve (remote w') = rest"
proof -
  let ?w4 = "w\<lparr>session := (session w)\<lparr>messages := messages (session w) @
                     [\<lparr>role = ''user'', content = prompt\<rparr>]\<rparr>,
                remote := (remote w)\<lparr>on_runs_retrieve := rest\<rparr>,
                calls := calls w @ [MessagesCreate tid ''user'' prompt, RunsCreate tid aid] @
                   map (\<lambda>r. RunsRetrieve tid (run_id r)) (butlast (r0 # rs)),
                ui := ui w @ [ChatMessage ''user'' prompt, Spinner ''Assistant is thinking...''],
                slept := slept w + length rs\<rparr>"
  have sub: "runs_submit_tool_outputs scripted tid (run_id (last (r0 # rs)))
           (map output_for (filter is_send_email tcs)) (remote ?w4) = (Inr (), remote ?w4)"
    using u by (simp add: scripted_simps)
  show ?thesis
    unfolding chat_input_scripted[OF h s p] handle_requires_action_ok[OF t a sub]
    using l by (simp add: final_response_def remote_call_def scripted_simps)
qed

lemma wait_for_run_frame:
  assumes ret: "wait_for_run c tid run w = Some y"
  shows "session (snd y) = session w \<and> console (snd y) = console w \<and> ui (snd y) = ui w \<and>
         (\<exists>rids. calls (snd y) = calls w @ map (RunsRetrieve tid) rids)"
proof (rule wait_for_run.raw_induct
    [where P = "\<lambda>c tid run w y. session (snd y) = session w \<and> console (snd y) = console w \<and>
        ui (snd y) = ui w \<and> (\<exists>rids. calls (snd y) = calls w @ map (RunsRetrieve tid) rids)",
     OF _ ret])
  fix f :: "'a client \<Rightarrow> string \<Rightarrow> run \<Rightarrow> 'a world \<Rightarrow> ((error + run) \<times> 'a world) option"
  fix c tid run w y
  assume IH: "\<And>c tid run w y. f c tid run w = Some y \<Longrightarrow>
      session (snd y) = session w \<and> console (snd y) = console w \<and> ui (snd y) = ui w \<and>
      (\<exists>rids. calls (snd y) = calls w @ map (RunsRetrieve tid) rids)"
  assume eq: "(if status run \<in> set [''queued'', ''in_progress''] then
        (case remote_call (RunsRetrieve tid (run_id run)) (runs_retrieve c tid (run_id run))
                (w\<lparr>slept := slept w + 1\<rparr>) of
           (Inl e, w') \<Rightarrow> Some (Inl e, w')
         | (Inr run', w') \<Rightarrow> f c tid run' w')
      else Some (Inr run, w)) = Some y"
  show "session (snd y) = session w \<and> console (snd y) = console w \<and> ui (snd y) = ui w \<and>
      (\<exists>rids. calls (snd y) = calls w @ map (RunsRetrieve tid) rids)"
  proof (cases "status run \<in> set [''queued'', ''in_progress'']")
    case False
    with eq have "y = (Inr run, w)" by simp
    then show ?thesis by simp
  next
    case True
    obtain res w1 where rc: "remote_call (RunsRetrieve tid (run_id run))
        (runs_retrieve c tid (run_id run)) (w\<lparr>slept := slept w + 1\<rparr>) = (res, w1)"
      by (cases "remote_call (RunsRetrieve tid (run_id run))
        (runs_retrieve c tid (run_id run)) (w\<lparr>slept := slept w + 1\<rparr>)")
    then have w1: "session w1 = session w" "console w1 = console w" "ui w1 = ui w"
        "calls w1 = calls w @ [RunsRetrieve tid (run_id run)]"
      by (auto simp: remote_call_def split: prod.splits)
    show ?thesis
    proof (cases res)
      case (Inl e)
      with eq True rc have "y = (Inl e, w1)" by simp
      with w1 show ?thesis by (auto intro: exI[of _ "[run_id run]"])
    next
      case (Inr run')
      with eq True rc have "f c tid run' w1 = Some y" by simp
      from IH[OF this] obtain rids where
        "session (snd y) = session w1" "console (snd y) = console w1" "ui (snd y) = ui w1"
        "calls (snd y) = calls w1 @ map (RunsRetrieve tid) rids" by blast
      with w1 show ?thesis by (auto intro: exI[of _ "run_id run # rids"])
    qed
  qed
qed


lemma handle_requires_action_frame:
  assumes "handle_requires_action c loads tid run w = Some (res, w')"
  shows "session w' = session w \<and>
     (calls w' = calls w \<or>
      (\<exists>outs. calls w' = calls w @ [SubmitToolOutputs tid (run_id run) outs]))"
proof (cases "status run = ''requires_action''")
  case False
  with assms show ?thesis by (simp add: handle_requires_action_def)
next
  case True
  then have np: "\<not> in_polling_set run" by (rule requires_action_not_polling)
  show ?thesis
  proof (cases "required_action run")
    case None
    with True assms show ?thesis by (auto simp: handle_requires_action_def)
  next
    case (Some tcs)
    obtain r1 w1 where h: "handle_tool_calls loads tcs [] w = (r1, w1)"
      by (cases "handle_tool_calls loads tcs [] w")
    note fr = handle_tool_calls_frame[OF h]
    from True Some h assms fr show ?thesis
      by (auto simp: handle_requires_action_def remote_call_def wait_for_run_stop[OF np]
            split: sum.splits prod.splits)
  qed
qed

lemma chat_input_stages:
  assumes "chat_input c loads prompt w = Some (out, w')" and "prompt \<noteq> []"
    and "truthy (assistant_id (session w))" and "truthy (thread_id (session w))"
  shows "(\<exists>e. out = Raised e \<and>
           messages (session w') = messages (session w) @ [\<lparr>role = ''user'', content = prompt\<rparr>] \<and>
           length (filter is_submit (calls w')) \<le> length (filter is_submit (calls w)) + 1) \<or>
         (\<exists>w5. (out, w') = final_response c (the (thread_id (session w))) w5 \<and>
           session w5 = (session w)\<lparr>messages := messages (session w) @
              [\<lparr>role = ''user'', content = prompt\<rparr>]\<rparr> \<and>
           length (filter is_submit (calls w5)) \<le> length (filter is_submit (calls w)) + 1)"
proof -
  let ?aid = "the (assistant_id (session w))"
  let ?tid = "the (thread_id (session w))"
  let ?w1 = "w\<lparr>session := (session w)\<lparr>messages := messages (session w) @
                      [\<lparr>role = ''user'', content = prompt\<rparr>]\<rparr>,
                   ui := ui w @ [ChatMessage ''user'' prompt]\<rparr>"
  obtain r2 w2 where c2: "remote_call (MessagesCreate ?tid ''user'' prompt)
                  (messages_create c ?tid ''user'' prompt) ?w1 = (r2, w2)"
    by (cases "remote_call (MessagesCreate ?tid ''user'' prompt)
                  (messages_create c ?tid ''user'' prompt) ?w1")
  then have f2: "session w2 = session ?w1" "calls w2 = calls w @ [MessagesCreate ?tid ''user'' prompt]"
    by (auto simp: remote_call_def split: prod.splits)
  show ?thesis
  proof (cases r2)
    case (Inl e)
    with assms c2 have "out = Raised e" "w' = w2"
      by (simp_all add: chat_input_def Let_def)
    with f2 show ?thesis by simp
  next
    case u: (Inr u)
    obtain r3 w3 where c3: "remote_call (RunsCreate ?tid ?aid) (runs_create c ?tid ?aid) w2 = (r3, w3)"
      by (cases "remote_call (RunsCreate ?tid ?aid) (runs_create c ?tid ?aid) w2")
    then have f3: "session w3 = session w2" "calls w3 = calls w2 @ [RunsCreate ?tid ?aid]"
      by (auto simp: remote_call_def split: prod.splits)
    show ?thesis
    proof (cases r3)
      case (Inl e)
      with assms c2 u c3 have "out = Raised e" "w' = w3"
        by (simp_all add: chat_input_def Let_def)
      with f2 f3 show ?thesis by simp
    next
      case run: (Inr run)
      let ?w3 = "w3\<lparr>ui := ui w3 @ [Spinner ''Assistant is thinking...'']\<rparr>"
      from assms c2 u c3 run obtain y4 where
        c4: "wait_for_run c ?tid run ?w3 = Some y4"
        by (cases "wait_for_run c ?tid run ?w3") (simp_all add: chat_input_def Let_def)
      obtain r4 w4 where y4: "y4 = (r4, w4)" by (cases y4)
      from wait_for_run_frame[OF c4] y4 obtain rids where
        f4: "session w4 = session w3" "calls w4 = calls w3 @ map (RunsRetrieve ?tid) rids"
        by auto
      have ns: "filter is_submit (map (RunsRetrieve ?tid) rids) = []"
        by (induction rids) simp_all
      show ?thesis
      proof (cases r4)
        case (Inl e)
        with assms c2 u c3 run c4 y4 have "out = Raised e" "w' = w4"
          by (simp_all add: chat_input_def Let_def)
        with f2 f3 f4 ns show ?thesis by simp
      next
        case run1: (Inr run1)
        from assms c2 u c3 run c4 y4 run1 obtain y5 where
          c5: "handle_requires_action c loads ?tid run1 w4 = Some y5"
          by (cases "handle_requires_action c loads ?tid run1 w4")
             (simp_all add: chat_input_def Let_def)
        obtain r5 w5 where y5: "y5 = (r5, w5)" by (cases y5)
        from handle_requires_action_frame[OF c5[unfolded y5]] have
          f5: "session w5 = session w4"
            "length (filter is_submit (calls w5)) \<le> length (filter is_submit (calls w4)) + 1"
          by auto
        show ?thesis
        proof (cases r5)
          case (Inl e)
          with assms c2 u c3 run c4 y4 run1 c5 y5 have "out = Raised e" "w' = w5"
            by (simp_all add: chat_input_def Let_def)
          with f2 f3 f4 f5 ns show ?thesis by simp
        next
          case (Inr run2)
          with assms c2 u c3 run c4 y4 run1 c5 y5 have
            "(out, w') = final_response c ?tid w5"
            by (simp add: chat_input_def Let_def)
          with f2 f3 f4 f5 ns show ?thesis by auto
        qed
      qed
    qed
  qed
qed

lemmas demo_defs = demo_world_def demo_session_def demo_script_def demo_run_def
  demo_action_run_def demo_mail_call_def demo_other_call_def demo_bad_call_def
  demo_reply_def demo_loads_def demo_args_def

lemma three_status_cycle:
  "map_option (\<lambda>(out, w'). (out, calls w'))
     (chat_input scripted demo_loads ''Hi''
        (demo_world demo_session
           [Inr (demo_run ''in_progress''), Inr (demo_run ''completed'')])) =
   Some (Done,
         [MessagesCreate ''thread_1'' ''user'' ''Hi'', RunsCreate ''thread_1'' ''asst_1'',
          RunsRetrieve ''thread_1'' ''run_1'', RunsRetrieve ''thread_1'' ''run_1'',
          MessagesList ''thread_1''])"
proof -
  let ?w = "demo_world demo_session
           [Inr (demo_run ''in_progress''), Inr (demo_run ''completed'')]"
  have "\<exists>w'. chat_input scripted demo_loads ''Hi'' ?w = Some (Done, w') \<and>
     messages (session w') = messages (session ?w) @
       [\<lparr>role = ''user'', content = ''Hi''\<rparr>, \<lparr>role = ''assistant'', content = ''Hello!''\<rparr>] \<and>
     calls w' = calls ?w @ [MessagesCreate ''thread_1'' ''user'' ''Hi'',
         RunsCreate ''thread_1'' ''asst_1''] @
       map (\<lambda>r. RunsRetrieve ''thread_1'' (run_id r))
         (butlast (demo_run ''queued'' # [demo_run ''in_progress'', demo_run ''completed''])) @
       [MessagesList ''thread_1''] \<and>
     console w' = console ?w \<and>
     slept w' = slept ?w + length [demo_run ''in_progress'', demo_run ''completed'']"
    by (rule chat_scripted_done [where rest = "[]" and data = "[demo_reply]"])
       (simp_all add: demo_defs in_polling_set_def first_text_def)
  then obtain w' where "chat_input scripted demo_loads ''Hi'' ?w = Some (Done, w')"
    and "calls w' = calls ?w @ [MessagesCreate ''thread_1'' ''user'' ''Hi'',
         RunsCreate ''thread_1'' ''asst_1''] @
       map (\<lambda>r. RunsRetrieve ''thread_1'' (run_id r))
         (butlast (demo_run ''queued'' # [demo_run ''in_progress'', demo_run ''completed''])) @
       [MessagesList ''thread_1'']"
    by (elim exE conjE)
  then show ?thesis by (simp add: demo_run_def demo_world_def)
qed

lemma demo_calls_kind:
  "is_send_email demo_mail_call" "\<not> is_send_email demo_other_call"
  "is_send_email demo_bad_call"
  by (simp_all add: is_send_email_def demo_mail_call_def demo_other_call_def
        demo_bad_call_def)

lemma demo_mail_args:
  "reads_args demo_loads demo_mail_call =
     Inr \<lparr>mail_to = PyStr ''a@example.com'', mail_subject = PyStr ''S'',
           mail_body = PyStr ''B''\<rparr>"
  by (simp add: reads_args_def demo_loads_def demo_mail_call_def)

lemma demo_bad_args: "reads_args demo_loads demo_bad_call = Inl (KeyError ''to'')"
  by (simp add: reads_args_def demo_loads_def demo_bad_call_def demo_args_def)

lemma chat_input_one_submission:
  assumes "chat_input c loads prompt w = Some (out, w')"
  shows "length (filter is_submit (calls w')) \<le> length (filter is_submit (calls w)) + 1"
proof (cases "prompt \<noteq> [] \<and> truthy (assistant_id (session w)) \<and> truthy (thread_id (session w))")
  case False
  with assms have "calls w' = calls w"
    by (auto simp: chat_input_def split: if_splits)
  then show ?thesis by simp
next
  case True
  from chat_input_stages[OF assms] True consider
    (raised) "length (filter is_submit (calls w')) \<le> length (filter is_submit (calls w)) + 1"
    | (final) w5 where "(out, w') = final_response c (the (thread_id (session w))) w5"
        "length (filter is_submit (calls w5)) \<le> length (filter is_submit (calls w)) + 1"
    by blast
  then show ?thesis
  proof cases
    case raised
    then show ?thesis .
  next
    case final
    from final_response_frame[OF final(1)[symmetric]] have
      "calls w' = calls w5 @ [MessagesList (the (thread_id (session w)))]" by simp
    with final(2) show ?thesis by simp
  qed
qed

lemma no_submit_in_retrieves:
  "filter is_submit (map (\<lambda>r. RunsRetrieve tid (run_id r)) xs) = []"
  by (induction xs) simp_all

lemma chat_input_done:
  assumes d: "chat_input c loads prompt w = Some (Done, w')" and p: "prompt \<noteq> []"
  shows "\<exists>reply data r.
           messages_list c (the (thread_id (session w))) r = (Inr data, remote w') \<and>
           first_text data = Inr reply \<and>
           messages (session w') = messages (session w) @
             [\<lparr>role = ''user'', content = prompt\<rparr>, \<lparr>role = ''assistant'', content = reply\<rparr>]"
proof -
  from d p have t: "truthy (assistant_id (session w))" "truthy (thread_id (session w))"
    by (auto simp: chat_input_def split: if_splits)
  from chat_input_stages[OF d p t] obtain w5 where
    f: "(Done, w') = final_response c (the (thread_id (session w))) w5"
    and s5: "session w5 = (session w)\<lparr>messages := messages (session w) @
              [\<lparr>role = ''user'', content = prompt\<rparr>]\<rparr>"
    by auto
  from final_response_frame[OF f[symmetric]] obtain data reply r where
    "messages_list c (the (thread_id (session w))) r = (Inr data, remote w')"
    "first_text data = Inr reply"
    "session w' = (session w5)\<lparr>messages := messages (session w5) @
                   [\<lparr>role = ''assistant'', content = reply\<rparr>]\<rparr>"
    by auto
  with s5 show ?thesis by auto
qed

lemma chat_input_remote_append_fails:
  assumes "prompt \<noteq> []" "assistant_id (session w) = Some aid" "aid \<noteq> []"
    "thread_id (session w) = Some tid" "tid \<noteq> []"
    and "messages_create c tid ''user'' prompt (remote w) = (Inl e, r1)"
  shows "map_option (\<lambda>(out, w'). (out, messages (session w'), calls w'))
           (chat_input c loads prompt w) =
         Some (Raised e,
               messages (session w) @ [\<lparr>role = ''user'', content = prompt\<rparr>],
               calls w @ [MessagesCreate tid ''user'' prompt])"
  using assms by (simp add: chat_input_def remote_call_def Let_def)

lemma missing_key: "k \<notin> fst ` set items \<Longrightarrow> map_of items k = None"
  by (simp add: map_of_eq_None_iff)

lemma reads_args_bad:
  "(\<exists>e. loads (fn_arguments tc) = Inl e) \<or>
   (\<exists>items. loads (fn_arguments tc) = Inr (PyDict items) \<and>
      (''to'' \<notin> fst ` set items \<or> ''subject'' \<notin> fst ` set items \<or>
       ''body'' \<notin> fst ` set items)) \<Longrightarrow>
   \<exists>e. reads_args loads tc = Inl e"
proof (elim disjE exE conjE)
  fix e
  assume "loads (fn_arguments tc) = Inl e"
  then show ?thesis by (simp add: reads_args_def)
next
  fix items
  assume "loads (fn_arguments tc) = Inr (PyDict items)" and "''to'' \<notin> fst ` set items"
  then show ?thesis by (simp add: reads_args_def missing_key)
next
  fix items
  assume "loads (fn_arguments tc) = Inr (PyDict items)" and "''subject'' \<notin> fst ` set items"
  then show ?thesis by (simp add: reads_args_def missing_key split: option.splits)
next
  fix items
  assume "loads (fn_arguments tc) = Inr (PyDict items)" and "''body'' \<notin> fst ` set items"
  then show ?thesis by (simp add: reads_args_def missing_key split: option.splits)
qed

section \<open>The claims\<close>

text \<open>
  C4. For every context text that is empty or consists of whitespace only (any of the
  Unicode code points that \<^verbatim>\<open>str.strip()\<close> removes, below and above U+00FF), the
  handler of "Create or Update Assistant" makes no remote call and only shows a warning:
  the session
  state (both handles, the transcript, the email list), the state of the remote service,
  the log of remote calls and the console are as before.
\<close>

theorem blank_context_rejected:
  "\<forall>cp \<in> set context. isspace cp \<Longrightarrow>
   provision c context w =
     (Done, w\<lparr>ui := ui w @
        [Warning ''Please provide some context before creating the assistant.'']\<rparr>)"
  by (simp add: provision_def strip_empty)

theorem blank_context_rejected_witness:
  "list_all isspace [32, 9, 10, 160, 8195, 8232, 12288] \<and>
   provision scripted [32, 9, 10, 160, 8195, 8232, 12288] (demo_world demo_session []) =
     (Done, (demo_world demo_session [])\<lparr>ui := ui (demo_world demo_session []) @
        [Warning ''Please provide some context before creating the assistant.'']\<rparr>)"
  using blank_context_rejected [of "[32, 9, 10, 160, 8195, 8232, 12288]" scripted
      "demo_world demo_session []"]
  by (simp add: isspace_def)

text \<open>
  C5. A prompt submitted while the assistant handle or the thread handle is absent ends
  in \<^verbatim>\<open>st.stop()\<close> after an error message: nothing is appended to the transcript,
  no remote call is made (no message is sent, no run is started).
\<close>

theorem missing_handle_guard:
  "prompt \<noteq> [] \<Longrightarrow> assistant_id (session w) = None \<or> thread_id (session w) = None \<Longrightarrow>
   chat_input c loads prompt w =
     Some (Stopped,
           w\<lparr>ui := ui w @ [Error ''Please create an assistant first using the sidebar.'']\<rparr>)"
  by (auto simp: chat_input_def)

theorem missing_handle_guard_witness:
  "''Hi'' \<noteq> [] \<and>
   (assistant_id (session (demo_world init_session [])) = None \<or>
    thread_id (session (demo_world init_session [])) = None) \<and>
   chat_input scripted demo_loads ''Hi'' (demo_world init_session []) =
     Some (Stopped,
           (demo_world init_session [])\<lparr>ui := ui (demo_world init_session []) @
              [Error ''Please create an assistant first using the sidebar.'']\<rparr>)"
  using missing_handle_guard [of "''Hi''" "demo_world init_session []" scripted demo_loads]
  by (simp add: demo_world_def init_session_def)

text \<open>
  C7. A tool call whose function name is not \<^verbatim>\<open>send_email\<close> produces no tool output
  and leaves no trace: the loop over the tool calls gives the same result and the same
  world as on the list without these calls, and the batch submitted to the run holds one
  output per \<^verbatim>\<open>send_email\<close> call and nothing else.
\<close>

theorem unknown_tool_calls_omitted:
  "handle_tool_calls loads tcs outs w =
     handle_tool_calls loads (filter is_send_email tcs) outs w \<and>
   (\<forall>run run' w'.
      status run = ''requires_action'' \<and> required_action run = Some tcs \<and>
      handle_requires_action c loads tid run w = Some (Inr run', w') \<longrightarrow>
      calls w' = calls w @
        [SubmitToolOutputs tid (run_id run) (map output_for (filter is_send_email tcs))])"
proof (intro conjI allI impI)
  show "handle_tool_calls loads tcs outs w =
     handle_tool_calls loads (filter is_send_email tcs) outs w"
    by (rule handle_tool_calls_filter)
next
  fix run run' w'
  assume "status run = ''requires_action'' \<and> required_action run = Some tcs \<and>
      handle_requires_action c loads tid run w = Some (Inr run', w')"
  then have a: "status run = ''requires_action''" "required_action run = Some tcs"
      "handle_requires_action c loads tid run w = Some (Inr run', w')"
    by simp_all
  obtain res w1 where h: "handle_tool_calls loads tcs [] w = (res, w1)"
    by (cases "handle_tool_calls loads tcs [] w")
  from handle_tool_calls_frame[OF h] have fr: "calls w1 = calls w" by simp
  show "calls w' = calls w @
        [SubmitToolOutputs tid (run_id run) (map output_for (filter is_send_email tcs))]"
  proof (cases res)
    case (Inl e)
    with a h show ?thesis by (simp add: handle_requires_action_def)
  next
    case (Inr outs')
    with h have o: "outs' = map output_for (filter is_send_email tcs)"
      using handle_tool_calls_outputs[of loads tcs "[]" w outs' w1] by simp
    from a(1) have np: "\<not> in_polling_set run" by (rule requires_action_not_polling)
    from a h Inr o fr show ?thesis
      by (auto simp: handle_requires_action_def remote_call_def wait_for_run_stop[OF np]
            split: prod.splits sum.splits)
  qed
qed

theorem unknown_tool_calls_omitted_witness:
  "handle_tool_calls demo_loads [demo_other_call, demo_mail_call] [] (demo_world demo_session []) =
     handle_tool_calls demo_loads [demo_mail_call] [] (demo_world demo_session []) \<and>
   status (demo_action_run [demo_other_call, demo_mail_call]) = ''requires_action'' \<and>
   required_action (demo_action_run [demo_other_call, demo_mail_call]) =
     Some [demo_other_call, demo_mail_call] \<and>
   map_option (\<lambda>(res, w'). (res, calls w'))
     (handle_requires_action scripted demo_loads ''thread_1''
        (demo_action_run [demo_other_call, demo_mail_call]) (demo_world demo_session [])) =
     Some (Inr (demo_action_run [demo_other_call, demo_mail_call]),
           [SubmitToolOutputs ''thread_1'' ''run_1''
              [\<lparr>tool_call_id = ''call_1'', output_text = ''Email sent successfully!''\<rparr>]])"
proof -
  let ?tcs = "[demo_other_call, demo_mail_call]"
  let ?R = "demo_action_run ?tcs"
  let ?W = "demo_world demo_session [] :: script world"
  let ?m = "\<lparr>mail_to = PyStr ''a@example.com'', mail_subject = PyStr ''S'',
             mail_body = PyStr ''B''\<rparr>"
  have st: "status ?R = ''requires_action''" "required_action ?R = Some ?tcs"
    by (simp_all add: demo_action_run_def)
  have fl: "filter is_send_email ?tcs = [demo_mail_call]"
    by (simp add: demo_calls_kind)
  have ra: "map (reads_args demo_loads) (filter is_send_email ?tcs) = map Inr [?m]"
    unfolding fl by (simp add: demo_mail_args)
  have sub: "runs_submit_tool_outputs scripted ''thread_1'' (run_id ?R)
           (map output_for (filter is_send_email ?tcs)) (remote ?W) = (Inr (), remote ?W)"
    by (simp add: scripted_simps demo_defs)
  note ok = handle_requires_action_ok[OF st ra sub]
  have ev: "\<exists>w'. handle_requires_action scripted demo_loads ''thread_1'' ?R ?W = Some (Inr ?R, w')"
    unfolding ok by simp
  then obtain w' where h: "handle_requires_action scripted demo_loads ''thread_1'' ?R ?W =
      Some (Inr ?R, w')" ..
  note claim = unknown_tool_calls_omitted[of demo_loads ?tcs "[]" ?W scripted "''thread_1''"]
  from claim have eq: "handle_tool_calls demo_loads ?tcs [] ?W =
      handle_tool_calls demo_loads (filter is_send_email ?tcs) [] ?W" by (rule conjunct1)
  from claim st h have "calls w' = calls ?W @
        [SubmitToolOutputs ''thread_1'' (run_id ?R) (map output_for (filter is_send_email ?tcs))]"
    by blast
  then have cw: "calls w' = [SubmitToolOutputs ''thread_1'' ''run_1''
              [\<lparr>tool_call_id = ''call_1'', output_text = ''Email sent successfully!''\<rparr>]]"
    unfolding fl by (simp add: output_for_def demo_mail_call_def demo_action_run_def demo_world_def)
  from eq[unfolded fl] st h cw show ?thesis by simp
qed

text \<open>
  C3. Against a scripted service whose run objects are, in order, a finite prefix with
  status \<^verbatim>\<open>queued\<close> or \<^verbatim>\<open>in_progress\<close> and then a run with any other status, the
  polling loop ends with that last run, after exactly one \<^verbatim>\<open>retrieve\<close> call per run of
  the sequence after the first (as many calls, and as many sleeps, as the prefix is long).
  For the statuses queued, in_progress, completed the whole handler makes exactly two
  \<^verbatim>\<open>retrieve\<close> calls before it lists the messages.
\<close>

theorem polling_loop_terminates:
  assumes "\<forall>r \<in> set (butlast (r0 # rs)). in_polling_set r"
    and "\<not> in_polling_set (last (r0 # rs))"
    and "on_runs_retrieve (remote w) = map Inr rs @ rest"
  shows "map_option (\<lambda>(res, w'). (res, calls w', slept w')) (wait_for_run scripted tid r0 w) =
           Some (Inr (last (r0 # rs)),
                 calls w @ map (\<lambda>r. RunsRetrieve tid (run_id r)) (butlast (r0 # rs)),
                 slept w + length rs) \<and>
         length (map (\<lambda>r. RunsRetrieve tid (run_id r)) (butlast (r0 # rs))) = length rs \<and>
         map_option (\<lambda>(out, w'). (out, calls w'))
           (chat_input scripted demo_loads ''Hi''
              (demo_world demo_session
                 [Inr (demo_run ''in_progress''), Inr (demo_run ''completed'')])) =
         Some (Done,
               [MessagesCreate ''thread_1'' ''user'' ''Hi'', RunsCreate ''thread_1'' ''asst_1'',
                RunsRetrieve ''thread_1'' ''run_1'', RunsRetrieve ''thread_1'' ''run_1'',
                MessagesList ''thread_1''])"
  unfolding polling_scripted[OF assms] three_status_cycle by simp

theorem polling_loop_terminates_witness:
  "list_all in_polling_set
     (butlast [demo_run ''queued'', demo_run ''in_progress'', demo_run ''completed'']) \<and>
   \<not> in_polling_set (last [demo_run ''queued'', demo_run ''in_progress'', demo_run ''completed'']) \<and>
   map_option (\<lambda>(res, w'). (res, calls w', slept w'))
     (wait_for_run scripted ''thread_1'' (demo_run ''queued'')
        (demo_world demo_session
           [Inr (demo_run ''in_progress''), Inr (demo_run ''completed'')])) =
     Some (Inr (demo_run ''completed''),
           [RunsRetrieve ''thread_1'' ''run_1'', RunsRetrieve ''thread_1'' ''run_1''], 2)"
  using polling_loop_terminates [of "demo_run ''queued''"
      "[demo_run ''in_progress'', demo_run ''completed'']"
      "demo_world demo_session [Inr (demo_run ''in_progress''), Inr (demo_run ''completed'')]"
      "[]" "''thread_1''"]
  by (simp add: demo_defs in_polling_set_def numeral_2_eq_2)

text \<open>
  C1. What the handler does after the tool outputs are submitted, against a scripted
  service whose run ends the first loop in \<^verbatim>\<open>requires_action\<close>: the call that follows
  \<^verbatim>\<open>submit_tool_outputs\<close> is the listing of the messages. The second loop tests the
  status of the run object of the first loop, which is still \<^verbatim>\<open>requires_action\<close>, so
  its body never runs: no \<^verbatim>\<open>retrieve\<close> call is made after the submission, and whatever
  the service would have answered (\<open>rest\<close>) is never asked for. The claim says that the
  second loop polls the run until it leaves the polling set; the comment of line 190
  says the same.
\<close>

theorem second_loop_never_polls:
  assumes "assistant_id (session w) = Some aid" "aid \<noteq> []"
      "thread_id (session w) = Some tid" "tid \<noteq> []" "prompt \<noteq> []"
    and "on_messages_create (remote w) = Inr ()" "on_runs_create (remote w) = Inr r0"
    and "\<forall>r \<in> set (butlast (r0 # rs)). in_polling_set r"
      "\<not> in_polling_set (last (r0 # rs))"
      "on_runs_retrieve (remote w) = map Inr rs @ rest"
    and "status (last (r0 # rs)) = ''requires_action''"
      "required_action (last (r0 # rs)) = Some tcs"
    and "map (reads_args loads) (filter is_send_email tcs) = map Inr ms"
    and "on_submit_tool_outputs (remote w) = Inr ()"
    and "on_messages_list (remote w) = Inr data" "first_text data = Inr txt"
  shows "map_option (\<lambda>(out, w'). (out, calls w', on_runs_retrieve (remote w')))
           (chat_input scripted loads prompt w) =
         Some (Done,
               calls w @ [MessagesCreate tid ''user'' prompt, RunsCreate tid aid] @
                 map (\<lambda>r. RunsRetrieve tid (run_id r)) (butlast (r0 # rs)) @
                 [SubmitToolOutputs tid (run_id (last (r0 # rs)))
                    (map output_for (filter is_send_email tcs)),
                  MessagesList tid],
               rest)"
proof -
  from chat_scripted_action[OF assms] obtain w' where
    "chat_input scripted loads prompt w = Some (Done, w')"
    "calls w' = calls w @ [MessagesCreate tid ''user'' prompt, RunsCreate tid aid] @
       map (\<lambda>r. RunsRetrieve tid (run_id r)) (butlast (r0 # rs)) @
       [SubmitToolOutputs tid (run_id (last (r0 # rs)))
          (map output_for (filter is_send_email tcs)),
        MessagesList tid]"
    "on_runs_retrieve (remote w') = rest"
    by blast
  then show ?thesis by simp
qed

theorem second_loop_never_polls_witness:
  "map_option (\<lambda>(out, w'). (out, calls w', on_runs_retrieve (remote w')))
     (chat_input scripted demo_loads ''Send it''
        (demo_world demo_session
           [Inr (demo_action_run [demo_mail_call]), Inr (demo_run ''in_progress''),
            Inr (demo_run ''completed'')])) =
   Some (Done,
         [MessagesCreate ''thread_1'' ''user'' ''Send it'', RunsCreate ''thread_1'' ''asst_1'',
          RunsRetrieve ''thread_1'' ''run_1'',
          SubmitToolOutputs ''thread_1'' ''run_1''
            [\<lparr>tool_call_id = ''call_1'', output_text = ''Email sent successfully!''\<rparr>],
          MessagesList ''thread_1''],
         [Inr (demo_run ''in_progress''), Inr (demo_run ''completed'')])"
proof -
  let ?w = "demo_world demo_session
           [Inr (demo_action_run [demo_mail_call]), Inr (demo_run ''in_progress''),
            Inr (demo_run ''completed'')]"
  have fl: "filter is_send_email [demo_mail_call] = [demo_mail_call]"
    by (simp add: demo_calls_kind)
  have "map_option (\<lambda>(out, w'). (out, calls w', on_runs_retrieve (remote w')))
           (chat_input scripted demo_loads ''Send it'' ?w) =
         Some (Done,
               calls ?w @ [MessagesCreate ''thread_1'' ''user'' ''Send it'',
                  RunsCreate ''thread_1'' ''asst_1''] @
                 map (\<lambda>r. RunsRetrieve ''thread_1'' (run_id r))
                   (butlast (demo_run ''queued'' # [demo_action_run [demo_mail_call]])) @
                 [SubmitToolOutputs ''thread_1''
                    (run_id (last (demo_run ''queued'' # [demo_action_run [demo_mail_call]])))
                    (map output_for (filter is_send_email [demo_mail_call])),
                  MessagesList ''thread_1''],
               [Inr (demo_run ''in_progress''), Inr (demo_run ''completed'')])"
  proof (rule second_loop_never_polls [where data = "[demo_reply]"
        and ms = "[\<lparr>mail_to = PyStr ''a@example.com'', mail_subject = PyStr ''S'',
                   mail_body = PyStr ''B''\<rparr>]"])
    show "map (reads_args demo_loads) (filter is_send_email [demo_mail_call]) =
      map Inr [\<lparr>mail_to = PyStr ''a@example.com'', mail_subject = PyStr ''S'',
                   mail_body = PyStr ''B''\<rparr>]"
      unfolding fl by (simp add: demo_mail_args)
  qed (simp_all add: demo_world_def demo_session_def demo_script_def demo_run_def
         demo_action_run_def demo_reply_def in_polling_set_def first_text_def)
  then show ?thesis
    unfolding fl
    by (simp add: demo_world_def demo_run_def demo_action_run_def output_for_def
          demo_mail_call_def)
qed

text \<open>
  C2. One prompt cycle against a scripted service whose run ends the first loop in
  \<^verbatim>\<open>requires_action\<close> with the tool calls \<open>tcs\<close>, every \<^verbatim>\<open>send_email\<close> call among them
  with arguments that parse (\<open>ms\<close> are the emails read from them, in order): the
  handler ends normally; \<^verbatim>\<open>send_email\<close> has printed exactly these emails, one per
  \<^verbatim>\<open>send_email\<close> call; the one batch submitted holds, per such call, an output with the
  identifier of the call and the fixed text; the transcript has grown by the user
  message and one assistant message. \<^verbatim>\<open>send_email\<close> always returns the fixed text, and
  no cycle, against any service, submits tool outputs more than once.
\<close>

theorem single_tool_round:
  assumes "assistant_id (session w) = Some aid" "aid \<noteq> []"
      "thread_id (session w) = Some tid" "tid \<noteq> []" "prompt \<noteq> []"
    and "on_messages_create (remote w) = Inr ()" "on_runs_create (remote w) = Inr r0"
    and "\<forall>r \<in> set (butlast (r0 # rs)). in_polling_set r"
      "\<not> in_polling_set (last (r0 # rs))"
      "on_runs_retrieve (remote w) = map Inr rs @ rest"
    and "status (last (r0 # rs)) = ''requires_action''"
      "required_action (last (r0 # rs)) = Some tcs"
    and "map (reads_args loads) (filter is_send_email tcs) = map Inr ms"
    and "on_submit_tool_outputs (remote w) = Inr ()"
    and "on_messages_list (remote w) = Inr data" "first_text data = Inr reply"
  shows "map_option
           (\<lambda>(out, w'). (out, drop (length (console w)) (console w'),
                          filter is_submit (calls w'),
                          drop (length (messages (session w))) (messages (session w'))))
           (chat_input scripted loads prompt w) =
         Some (Done, ms,
               filter is_submit (calls w) @
                 [SubmitToolOutputs tid (run_id (last (r0 # rs)))
                    (map (\<lambda>tc. \<lparr>tool_call_id = call_id tc,
                                 output_text = ''Email sent successfully!''\<rparr>)
                       (filter is_send_email tcs))],
               [\<lparr>role = ''user'', content = prompt\<rparr>,
                \<lparr>role = ''assistant'', content = reply\<rparr>]) \<and>
         length ms = length (filter is_send_email tcs) \<and>
         fst (send_email to subject body w) = ''Email sent successfully!'' \<and>
         (\<forall>c2 w2 out w2'. chat_input c2 loads prompt w2 = Some (out, w2') \<longrightarrow>
            length (filter is_submit (calls w2')) \<le> length (filter is_submit (calls w2)) + 1)"
proof -
  from chat_scripted_action[OF assms] obtain w' where
    r: "chat_input scripted loads prompt w = Some (Done, w')"
    and m: "messages (session w') = messages (session w) @
       [\<lparr>role = ''user'', content = prompt\<rparr>, \<lparr>role = ''assistant'', content = reply\<rparr>]"
    and c: "calls w' = calls w @ [MessagesCreate tid ''user'' prompt, RunsCreate tid aid] @
       map (\<lambda>r. RunsRetrieve tid (run_id r)) (butlast (r0 # rs)) @
       [SubmitToolOutputs tid (run_id (last (r0 # rs)))
          (map output_for (filter is_send_email tcs)),
        MessagesList tid]"
    and k: "console w' = console w @ ms"
    by blast
  have of_eq: "output_for = (\<lambda>tc. \<lparr>tool_call_id = call_id tc,
                                 output_text = ''Email sent successfully!''\<rparr>)"
    by (rule ext) (simp add: output_for_def)
  have first: "map_option
           (\<lambda>(out, w'). (out, drop (length (console w)) (console w'),
                          filter is_submit (calls w'),
                          drop (length (messages (session w))) (messages (session w'))))
           (chat_input scripted loads prompt w) =
         Some (Done, ms,
               filter is_submit (calls w) @
                 [SubmitToolOutputs tid (run_id (last (r0 # rs)))
                    (map (\<lambda>tc. \<lparr>tool_call_id = call_id tc,
                                 output_text = ''Email sent successfully!''\<rparr>)
                       (filter is_send_email tcs))],
               [\<lparr>role = ''user'', content = prompt\<rparr>,
                \<lparr>role = ''assistant'', content = reply\<rparr>])"
    unfolding r by (simp add: m c k no_submit_in_retrieves of_eq)
  from assms(13) have len: "length ms = length (filter is_send_email tcs)"
    by (metis length_map)
  have fixed: "fst (send_email to subject body w) = ''Email sent successfully!''"
    by (simp add: send_email_def)
  have bound: "\<forall>c2 w2 out w2'. chat_input c2 loads prompt w2 = Some (out, w2') \<longrightarrow>
            length (filter is_submit (calls w2')) \<le> length (filter is_submit (calls w2)) + 1"
    by (intro allI impI) (rule chat_input_one_submission)
  from first len fixed bound show ?thesis by (intro conjI)
qed

theorem single_tool_round_witness:
  "map_option
     (\<lambda>(out, w'). (out, console w', filter is_submit (calls w'),
                    drop (length (messages demo_session)) (messages (session w'))))
     (chat_input scripted demo_loads ''Send it''
        (demo_world demo_session
           [Inr (demo_action_run [demo_mail_call, demo_other_call]),
            Inr (demo_run ''completed'')])) =
   Some (Done,
         [\<lparr>mail_to = PyStr ''a@example.com'', mail_subject = PyStr ''S'',
           mail_body = PyStr ''B''\<rparr>],
         [SubmitToolOutputs ''thread_1'' ''run_1''
            [\<lparr>tool_call_id = ''call_1'', output_text = ''Email sent successfully!''\<rparr>]],
         [\<lparr>role = ''user'', content = ''Send it''\<rparr>,
          \<lparr>role = ''assistant'', content = ''Hello!''\<rparr>])"
proof -
  let ?tcs = "[demo_mail_call, demo_other_call]"
  let ?w = "demo_world demo_session
           [Inr (demo_action_run ?tcs), Inr (demo_run ''completed'')]"
  let ?m = "\<lparr>mail_to = PyStr ''a@example.com'', mail_subject = PyStr ''S'',
             mail_body = PyStr ''B''\<rparr>"
  have fl: "filter is_send_email ?tcs = [demo_mail_call]"
    by (simp add: demo_calls_kind)
  have ra: "map (reads_args demo_loads) (filter is_send_email ?tcs) = map Inr [?m]"
    unfolding fl by (simp add: demo_mail_args)
  have "map_option
           (\<lambda>(out, w'). (out, drop (length (console ?w)) (console w'),
                          filter is_submit (calls w'),
                          drop (length (messages (session ?w))) (messages (session w'))))
           (chat_input scripted demo_loads ''Send it'' ?w) =
         Some (Done, [?m],
               filter is_submit (calls ?w) @
                 [SubmitToolOutputs ''thread_1''
                    (run_id (last (demo_run ''queued'' # [demo_action_run ?tcs])))
                    (map (\<lambda>tc. \<lparr>tool_call_id = call_id tc,
                                 output_text = ''Email sent successfully!''\<rparr>)
                       (filter is_send_email ?tcs))],
               [\<lparr>role = ''user'', content = ''Send it''\<rparr>,
                \<lparr>role = ''assistant'', content = ''Hello!''\<rparr>])"
    using single_tool_round [where w = ?w and aid = "''asst_1''" and tid = "''thread_1''"
        and prompt = "''Send it''" and ?r0.0 = "demo_run ''queued''"
        and rs = "[demo_action_run ?tcs]" and rest = "[Inr (demo_run ''completed'')]"
        and tcs = ?tcs and loads = demo_loads and ms = "[?m]" and data = "[demo_reply]"
        and reply = "''Hello!''", OF _ _ _ _ _ _ _ _ _ _ _ _ ra, THEN conjunct1]
    by (simp add: demo_world_def demo_session_def demo_script_def demo_run_def
         demo_action_run_def demo_reply_def in_polling_set_def first_text_def
         demo_calls_kind)
  then show ?thesis
    unfolding fl
    by (simp add: demo_world_def demo_session_def demo_run_def demo_action_run_def
          demo_mail_call_def)
qed

text \<open>
  C6. Whenever the handler of a prompt ends normally, against any service, the
  transcript is the old transcript followed by the user message with the prompt and the
  assistant message with the reply, in this order, where the reply is the text that
  \<^verbatim>\<open>messages.data[0].content[0].text.value\<close> reads from the list the service returned
  last. The local append comes before the remote one: when the remote append (the first
  remote call of the cycle) raises, the user message is already in the transcript.
\<close>

theorem transcript_order:
  "(chat_input c loads prompt w = Some (Done, w') \<and> prompt \<noteq> [] \<longrightarrow>
      (\<exists>reply data r.
           messages_list c (the (thread_id (session w))) r = (Inr data, remote w') \<and>
           first_text data = Inr reply \<and>
           messages (session w') = messages (session w) @
             [\<lparr>role = ''user'', content = prompt\<rparr>,
              \<lparr>role = ''assistant'', content = reply\<rparr>])) \<and>
   (prompt \<noteq> [] \<and> assistant_id (session w) = Some aid \<and> aid \<noteq> [] \<and>
    thread_id (session w) = Some tid \<and> tid \<noteq> [] \<and>
    messages_create c tid ''user'' prompt (remote w) = (Inl e, r1) \<longrightarrow>
      map_option (\<lambda>(out, w'). (out, messages (session w'), calls w'))
           (chat_input c loads prompt w) =
         Some (Raised e,
               messages (session w) @ [\<lparr>role = ''user'', content = prompt\<rparr>],
               calls w @ [MessagesCreate tid ''user'' prompt]))"
  using chat_input_done[of c loads prompt w w']
    chat_input_remote_append_fails[of prompt w aid tid c e r1 loads]
  by blast

theorem transcript_order_witness:
  "map_option (\<lambda>(out, w'). (out, messages (session w')))
     (chat_input scripted demo_loads ''Hi''
        (demo_world demo_session [Inr (demo_run ''completed'')])) =
     Some (Done,
           [\<lparr>role = ''user'', content = ''Hi''\<rparr>, \<lparr>role = ''assistant'', content = ''Hello!''\<rparr>,
            \<lparr>role = ''user'', content = ''Hi''\<rparr>, \<lparr>role = ''assistant'', content = ''Hello!''\<rparr>]) \<and>
   map_option (\<lambda>(out, w'). (out, messages (session w'), calls w'))
     (chat_input scripted demo_loads ''Hi''
        ((demo_world demo_session [])
           \<lparr>remote := (demo_script [])\<lparr>on_messages_create := Inl (APIError ''down'')\<rparr>\<rparr>)) =
     Some (Raised (APIError ''down''),
           [\<lparr>role = ''user'', content = ''Hi''\<rparr>, \<lparr>role = ''assistant'', content = ''Hello!''\<rparr>,
            \<lparr>role = ''user'', content = ''Hi''\<rparr>],
           [MessagesCreate ''thread_1'' ''user'' ''Hi''])"
proof -
  let ?w = "demo_world demo_session [Inr (demo_run ''completed'')]"
  let ?v = "(demo_world demo_session [])
           \<lparr>remote := (demo_script [])\<lparr>on_messages_create := Inl (APIError ''down'')\<rparr>\<rparr>"
  have "\<exists>w'. chat_input scripted demo_loads ''Hi'' ?w = Some (Done, w') \<and>
     messages (session w') = messages (session ?w) @
       [\<lparr>role = ''user'', content = ''Hi''\<rparr>, \<lparr>role = ''assistant'', content = ''Hello!''\<rparr>] \<and>
     calls w' = calls ?w @ [MessagesCreate ''thread_1'' ''user'' ''Hi'',
         RunsCreate ''thread_1'' ''asst_1''] @
       map (\<lambda>r. RunsRetrieve ''thread_1'' (run_id r))
         (butlast (demo_run ''queued'' # [demo_run ''completed''])) @
       [MessagesList ''thread_1''] \<and>
     console w' = console ?w \<and>
     slept w' = slept ?w + length [demo_run ''completed'']"
    by (rule chat_scripted_done [where rest = "[]" and data = "[demo_reply]"])
       (simp_all add: demo_defs in_polling_set_def first_text_def)
  then obtain w' where d: "chat_input scripted demo_loads ''Hi'' ?w = Some (Done, w')"
    and m: "messages (session w') = messages (session ?w) @
       [\<lparr>role = ''user'', content = ''Hi''\<rparr>, \<lparr>role = ''assistant'', content = ''Hello!''\<rparr>]"
    by (elim exE conjE)
  from transcript_order[of scripted demo_loads "''Hi''" ?w w', THEN conjunct1] d
  obtain reply where "messages (session w') = messages (session ?w) @
       [\<lparr>role = ''user'', content = ''Hi''\<rparr>, \<lparr>role = ''assistant'', content = reply\<rparr>]"
    by auto
  with m d have a: "map_option (\<lambda>(out, w'). (out, messages (session w')))
     (chat_input scripted demo_loads ''Hi'' ?w) =
     Some (Done,
           [\<lparr>role = ''user'', content = ''Hi''\<rparr>, \<lparr>role = ''assistant'', content = ''Hello!''\<rparr>,
            \<lparr>role = ''user'', content = ''Hi''\<rparr>, \<lparr>role = ''assistant'', content = ''Hello!''\<rparr>])"
    by (simp add: demo_world_def demo_session_def)
  have b: "map_option (\<lambda>(out, w'). (out, messages (session w'), calls w'))
     (chat_input scripted demo_loads ''Hi'' ?v) =
     Some (Raised (APIError ''down''),
           [\<lparr>role = ''user'', content = ''Hi''\<rparr>, \<lparr>role = ''assistant'', content = ''Hello!''\<rparr>,
            \<lparr>role = ''user'', content = ''Hi''\<rparr>],
           [MessagesCreate ''thread_1'' ''user'' ''Hi''])"
    using transcript_order[of scripted demo_loads "''Hi''" ?v _ "''asst_1''" "''thread_1''"
        "APIError ''down''" "remote ?v", THEN conjunct2]
    by (simp add: demo_world_def demo_session_def demo_script_def scripted_simps)
  from a b show ?thesis by (rule conjI)
qed

text \<open>
  C8. Against a scripted service whose run leaves the polling set with any status at
  all (\<^verbatim>\<open>completed\<close>, \<^verbatim>\<open>failed\<close>, \<^verbatim>\<open>expired\<close>, or \<^verbatim>\<open>requires_action\<close> with tool
  calls that can be run and submitted): the last remote call of the handler lists the
  messages of the thread, and the text of the first content part of entry 0 of that list
  is appended to the transcript with the role \<^verbatim>\<open>assistant\<close>: the transcript at the
  end is the old transcript, the user message of the cycle and this one entry after it,
  nothing removed. The role of entry 0 (\<open>tm_role m\<close>) is not looked at, and neither is
  the final status.
\<close>

theorem newest_message_appended:
  assumes h: "assistant_id (session w) = Some aid" "aid \<noteq> []"
      "thread_id (session w) = Some tid" "tid \<noteq> []" "prompt \<noteq> []"
    and s: "on_messages_create (remote w) = Inr ()" "on_runs_create (remote w) = Inr r0"
    and p: "\<forall>r \<in> set (butlast (r0 # rs)). in_polling_set r"
      "\<not> in_polling_set (last (r0 # rs))"
      "on_runs_retrieve (remote w) = map Inr rs @ rest"
    and l: "on_messages_list (remote w) = Inr (m # older)"
      "tm_content m = TextContent reply # parts"
    and a: "status (last (r0 # rs)) = ''requires_action'' \<longrightarrow>
      (\<exists>tcs ms. required_action (last (r0 # rs)) = Some tcs \<and>
         map (reads_args loads) (filter is_send_email tcs) = map Inr ms) \<and>
      on_submit_tool_outputs (remote w) = Inr ()"
  shows "map_option (\<lambda>(out, w'). (out, last (calls w'), messages (session w')))
           (chat_input scripted loads prompt w) =
         Some (Done, MessagesList tid,
               messages (session w) @
                 [\<lparr>role = ''user'', content = prompt\<rparr>,
                  \<lparr>role = ''assistant'', content = reply\<rparr>])"
proof -
  from l(2) have ft: "first_text (m # older) = Inr reply" by (simp add: first_text_def)
  show ?thesis
  proof (cases "status (last (r0 # rs)) = ''requires_action''")
    case False
    from chat_scripted_done[OF h s p False l(1) ft] obtain w' where
      "chat_input scripted loads prompt w = Some (Done, w')"
      "messages (session w') = messages (session w) @
         [\<lparr>role = ''user'', content = prompt\<rparr>, \<lparr>role = ''assistant'', content = reply\<rparr>]"
      "calls w' = calls w @ [MessagesCreate tid ''user'' prompt, RunsCreate tid aid] @
         map (\<lambda>r. RunsRetrieve tid (run_id r)) (butlast (r0 # rs)) @ [MessagesList tid]"
      by blast
    then show ?thesis by simp
  next
    case True
    with a obtain tcs ms where t: "required_action (last (r0 # rs)) = Some tcs"
      and ra: "map (reads_args loads) (filter is_send_email tcs) = map Inr ms"
      and u: "on_submit_tool_outputs (remote w) = Inr ()"
      by blast
    from chat_scripted_action[OF h s p True t ra u l(1) ft] obtain w' where
      "chat_input scripted loads prompt w = Some (Done, w')"
      "messages (session w') = messages (session w) @
         [\<lparr>role = ''user'', content = prompt\<rparr>, \<lparr>role = ''assistant'', content = reply\<rparr>]"
      "calls w' = calls w @ [MessagesCreate tid ''user'' prompt, RunsCreate tid aid] @
         map (\<lambda>r. RunsRetrieve tid (run_id r)) (butlast (r0 # rs)) @
         [SubmitToolOutputs tid (run_id (last (r0 # rs)))
            (map output_for (filter is_send_email tcs)),
          MessagesList tid]"
      by blast
    then show ?thesis by simp
  qed
qed

theorem newest_message_appended_witness:
  "map_option (\<lambda>(out, w'). (out, last (calls w'), messages (session w')))
     (chat_input scripted demo_loads ''Hi''
        ((demo_world demo_session [Inr (demo_run ''failed'')])
           \<lparr>remote := (demo_script [Inr (demo_run ''failed'')])
              \<lparr>on_messages_list :=
                 Inr [\<lparr>tm_role = ''user'', tm_content = [TextContent ''Hi'']\<rparr>, demo_reply]\<rparr>\<rparr>)) =
   Some (Done, MessagesList ''thread_1'',
         [\<lparr>role = ''user'', content = ''Hi''\<rparr>, \<lparr>role = ''assistant'', content = ''Hello!''\<rparr>,
          \<lparr>role = ''user'', content = ''Hi''\<rparr>, \<lparr>role = ''assistant'', content = ''Hi''\<rparr>])"
  using newest_message_appended [where
      w = "(demo_world demo_session [Inr (demo_run ''failed'')])
           \<lparr>remote := (demo_script [Inr (demo_run ''failed'')])
              \<lparr>on_messages_list :=
                 Inr [\<lparr>tm_role = ''user'', tm_content = [TextContent ''Hi'']\<rparr>, demo_reply]\<rparr>\<rparr>"
      and aid = "''asst_1''" and tid = "''thread_1''" and prompt = "''Hi''"
      and ?r0.0 = "demo_run ''queued''" and rs = "[demo_run ''failed'']" and rest = "[]"
      and m = "\<lparr>tm_role = ''user'', tm_content = [TextContent ''Hi'']\<rparr>"
      and older = "[demo_reply]" and reply = "''Hi''" and parts = "[]" and loads = demo_loads]
  by (simp add: demo_world_def demo_session_def demo_script_def demo_run_def
        in_polling_set_def)

text \<open>
  C10. In a cycle whose run asks for tool calls, a \<^verbatim>\<open>send_email\<close> call whose arguments
  \<^verbatim>\<open>json.loads\<close> rejects, or whose parsed dict lacks one of the keys \<^verbatim>\<open>to\<close>,
  \<^verbatim>\<open>subject\<close>, \<^verbatim>\<open>body\<close>, makes the handler end in an uncaught exception: no tool
  outputs are submitted and the transcript holds the user message only, with no
  assistant message after it. Where the dict has the three keys, the email is made of
  the values of exactly these keys, whatever else the dict holds.
\<close>

theorem bad_arguments_raise:
  assumes h: "assistant_id (session w) = Some aid" "aid \<noteq> []"
      "thread_id (session w) = Some tid" "tid \<noteq> []" "prompt \<noteq> []"
    and s: "on_messages_create (remote w) = Inr ()" "on_runs_create (remote w) = Inr r0"
    and p: "\<forall>r \<in> set (butlast (r0 # rs)). in_polling_set r"
      "\<not> in_polling_set (last (r0 # rs))"
      "on_runs_retrieve (remote w) = map Inr rs @ rest"
    and t: "status (last (r0 # rs)) = ''requires_action''"
      "required_action (last (r0 # rs)) = Some tcs"
    and b: "tc \<in> set tcs" "is_send_email tc"
      "(\<exists>e. loads (fn_arguments tc) = Inl e) \<or>
       (\<exists>items. loads (fn_arguments tc) = Inr (PyDict items) \<and>
          (''to'' \<notin> fst ` set items \<or> ''subject'' \<notin> fst ` set items \<or>
           ''body'' \<notin> fst ` set items))"
  shows "(\<exists>e. map_option (\<lambda>(out, w'). (out, filter is_submit (calls w'), messages (session w')))
           (chat_input scripted loads prompt w) =
         Some (Raised e, filter is_submit (calls w),
               messages (session w) @ [\<lparr>role = ''user'', content = prompt\<rparr>])) \<and>
     (is_send_email tc2 \<and> loads (fn_arguments tc2) = Inr (PyDict items2) \<and>
      map_of items2 ''to'' = Some to \<and> map_of items2 ''subject'' = Some subject \<and>
      map_of items2 ''body'' = Some body \<longrightarrow>
        handle_tool_calls loads [tc2] [] w2 =
          (Inr [\<lparr>tool_call_id = call_id tc2, output_text = ''Email sent successfully!''\<rparr>],
           w2\<lparr>ui := ui w2 @ [Info ''Assistant is requesting to send an email...''],
              console := console w2 @
                [\<lparr>mail_to = to, mail_subject = subject, mail_body = body\<rparr>]\<rparr>))"
proof (rule conjI)
  show "is_send_email tc2 \<and> loads (fn_arguments tc2) = Inr (PyDict items2) \<and>
      map_of items2 ''to'' = Some to \<and> map_of items2 ''subject'' = Some subject \<and>
      map_of items2 ''body'' = Some body \<longrightarrow>
        handle_tool_calls loads [tc2] [] w2 =
          (Inr [\<lparr>tool_call_id = call_id tc2, output_text = ''Email sent successfully!''\<rparr>],
           w2\<lparr>ui := ui w2 @ [Info ''Assistant is requesting to send an email...''],
              console := console w2 @
                [\<lparr>mail_to = to, mail_subject = subject, mail_body = body\<rparr>]\<rparr>)"
    by (simp add: handle_tool_calls_Cons reads_args_def output_for_def)
next
  from reads_args_bad[of loads tc, OF b(3)] obtain e0 where bad: "reads_args loads tc = Inl e0" ..
  let ?w4 = "w\<lparr>session := (session w)\<lparr>messages := messages (session w) @
                     [\<lparr>role = ''user'', content = prompt\<rparr>]\<rparr>,
                remote := (remote w)\<lparr>on_runs_retrieve := rest\<rparr>,
                calls := calls w @ [MessagesCreate tid ''user'' prompt, RunsCreate tid aid] @
                   map (\<lambda>r. RunsRetrieve tid (run_id r)) (butlast (r0 # rs)),
                ui := ui w @ [ChatMessage ''user'' prompt, Spinner ''Assistant is thinking...''],
                slept := slept w + length rs\<rparr>"
  from handle_requires_action_raises[OF t b(1,2) bad, of scripted tid ?w4] obtain e w' where
    r: "handle_requires_action scripted loads tid (last (r0 # rs)) ?w4 = Some (Inl e, w')"
    and f: "session w' = session ?w4" "calls w' = calls ?w4"
    by blast
  have "map_option (\<lambda>(out, w'). (out, filter is_submit (calls w'), messages (session w')))
           (chat_input scripted loads prompt w) =
         Some (Raised e, filter is_submit (calls w),
               messages (session w) @ [\<lparr>role = ''user'', content = prompt\<rparr>])"
    unfolding chat_input_scripted[OF h s p] r
    by (simp add: f no_submit_in_retrieves)
  then show "\<exists>e. map_option
           (\<lambda>(out, w'). (out, filter is_submit (calls w'), messages (session w')))
           (chat_input scripted loads prompt w) =
         Some (Raised e, filter is_submit (calls w),
               messages (session w) @ [\<lparr>role = ''user'', content = prompt\<rparr>])" ..
qed

theorem bad_arguments_raise_witness:
  "\<exists>e. map_option (\<lambda>(out, w'). (out, filter is_submit (calls w'), messages (session w')))
     (chat_input scripted demo_loads ''Send it''
        (demo_world demo_session [Inr (demo_action_run [demo_mail_call, demo_bad_call])])) =
   Some (Raised e, [],
         [\<lparr>role = ''user'', content = ''Hi''\<rparr>, \<lparr>role = ''assistant'', content = ''Hello!''\<rparr>,
          \<lparr>role = ''user'', content = ''Send it''\<rparr>])"
proof -
  let ?tcs = "[demo_mail_call, demo_bad_call]"
  let ?w = "demo_world demo_session [Inr (demo_action_run ?tcs)]"
  have bad: "(\<exists>e. demo_loads (fn_arguments demo_bad_call) = Inl e) \<or>
       (\<exists>items. demo_loads (fn_arguments demo_bad_call) = Inr (PyDict items) \<and>
          (''to'' \<notin> fst ` set items \<or> ''subject'' \<notin> fst ` set items \<or>
           ''body'' \<notin> fst ` set items))"
    by (rule disjI2, rule exI[of _ "[]"])
       (simp add: demo_loads_def demo_bad_call_def demo_args_def)
  have "\<exists>e. map_option
           (\<lambda>(out, w'). (out, filter is_submit (calls w'), messages (session w')))
           (chat_input scripted demo_loads ''Send it'' ?w) =
         Some (Raised e, filter is_submit (calls ?w),
               messages (session ?w) @ [\<lparr>role = ''user'', content = ''Send it''\<rparr>])"
    by (rule bad_arguments_raise [where aid = "''asst_1''" and tid = "''thread_1''"
          and ?r0.0 = "demo_run ''queued''" and rs = "[demo_action_run ?tcs]" and rest = "[]"
          and tcs = ?tcs and tc = demo_bad_call and loads = demo_loads and w = ?w
          and prompt = "''Send it''", THEN conjunct1, OF _ _ _ _ _ _ _ _ _ _ _ _ _ _ bad])
       (simp_all add: demo_world_def demo_session_def demo_script_def demo_run_def
          demo_action_run_def in_polling_set_def demo_calls_kind)
  then show ?thesis by (simp add: demo_world_def demo_session_def)
qed

text \<open>
  C9, as amended. When the handler of "Create or Update Assistant" runs with a context
  that is not blank (and that UTF-8 can encode, as every text without a lone surrogate
  is) and its three remote calls succeed, the assistant handle and the
  thread handle of the session are replaced by the identifiers the service returned and
  the transcript is emptied; the list of known email addresses is left as it was.
\<close>

theorem provision_replaces_handles:
  assumes "strip context \<noteq> []"
    and "encode_utf8 context = Inr content_bytes"
    and "files_create c content_bytes (remote w) = (Inr fid, r1)"
    and "assistants_create c assistant_name assistant_instructions assistant_model [fid] r1 =
           (Inr aid, r2)"
    and "threads_create c r2 = (Inr tid, r3)"
  shows "(\<lambda>(out, w'). (out, session w', calls w')) (provision c context w) =
           (Done,
            \<lparr>assistant_id = Some aid, thread_id = Some tid, messages = [],
              email_list = email_list (session w)\<rparr>,
            calls w @ [FilesCreate content_bytes,
                       AssistantsCreate assistant_name assistant_instructions assistant_model
                         [fid],
                       ThreadsCreate])"
  using assms by (simp add: provision_def remote_call_def Let_def)

theorem provision_replaces_handles_witness:
  "(\<lambda>(out, w'). (out, session w', calls w'))
     (provision scripted [70, 65, 81, 233] (demo_world demo_session [])) =
     (Done,
      \<lparr>assistant_id = Some ''asst_2'', thread_id = Some ''thread_2'', messages = [],
        email_list = [''a@example.com'']\<rparr>,
      [FilesCreate [70, 65, 81, 195, 169],
       AssistantsCreate assistant_name assistant_instructions assistant_model [''file_1''],
       ThreadsCreate])"
  using provision_replaces_handles [of "[70, 65, 81, 233]" "[70, 65, 81, 195, 169]" scripted
      "demo_world demo_session []" "''file_1''" "demo_script []" "''asst_2''"
      "demo_script []" "''thread_2''" "demo_script []"]
  by (simp add: strip_def isspace_def utf8_code_point_def scripted_simps demo_world_def
        demo_session_def demo_script_def)

text \<open>
  C9, as stated, asks that the whole session state, the list of known email addresses
  included, is rebuilt. The handler never writes \<^verbatim>\<open>email_list\<close>: after a successful run
  on a session that knows one address, the address is still there, and the session is not
  the initial one with the new handles.
\<close>

theorem provision_keeps_email_list_counterexample:
  "fst (provision scripted [70, 65, 81] (demo_world demo_session [])) = Done \<and>
   email_list (session (snd (provision scripted [70, 65, 81] (demo_world demo_session [])))) =
     [''a@example.com''] \<and>
   session (snd (provision scripted [70, 65, 81] (demo_world demo_session []))) \<noteq>
     init_session\<lparr>assistant_id := Some ''asst_2'', thread_id := Some ''thread_2''\<rparr>"
  by (simp add: provision_def remote_call_def Let_def strip_def isspace_def
        utf8_code_point_def scripted_simps demo_world_def demo_session_def demo_script_def
        init_session_def)

end
